theory Spec2Isabelle
  imports Complex_Main "HOL-Library.Word"
begin

unbundle bit_operations_syntax

section \<open>Outcomes of a call\<close>

text \<open>
  A Go call either returns (possibly with a non-nil \<^verbatim>\<open>error\<close> value) or panics.
  The error values that \<^verbatim>\<open>comgo.go\<close> can return are collected in \<open>error\<close>:
  the three \<^verbatim>\<open>fmt.Errorf\<close> shapes of \<^verbatim>\<open>ReadCFG\<close>, the \<^verbatim>\<open>*strconv.NumError\<close> of the
  number parsers (function, input, kind), the error of \<^verbatim>\<open>time.Parse\<close>, the error of
  the reader, the \<^verbatim>\<open>errors.New\<close> texts of \<^verbatim>\<open>GetAnalogChannelData\<close> and the end-of-input
  error of \<^verbatim>\<open>binary.Read\<close>.  A run-time panic is not an error value: it is the
  second constructor of \<open>failure\<close>.
\<close>

datatype numerr_kind = ErrSyntax | ErrRange

datatype error =
    ReadAllError
  | MissingFirstLine nat
  | MissingSecondLine nat
  | MissingStreamNumbers
  | MissingAnalogInfo nat
  | MissingDigitInfo nat
  | NumError string string numerr_kind
  | TimeParseError string string
  | ErrorsNew string
  | EOF
  | ErrUnexpectedEOF

datatype runtime_panic = IndexOutOfRange | SliceBoundsOutOfRange

datatype failure = Returned error | Panicked runtime_panic

section \<open>Library functions used by the decoder\<close>

subsection \<open>Parameters: float64, time.Time and Unicode trimming\<close>

text \<open>
  The IEEE arithmetic of \<^verbatim>\<open>float64\<close>, \<^verbatim>\<open>strconv.ParseFloat\<close>, \<^verbatim>\<open>time.Parse\<close> and the
  Unicode fall-back of \<^verbatim>\<open>strings.TrimSpace\<close> belong to the Go run time and its standard
  library.  They are parameters of the model: \<open>'f\<close> stands for \<^verbatim>\<open>float64\<close>, \<open>'t\<close> for
  \<^verbatim>\<open>time.Time\<close>, and everything proved for all values of the record below holds for
  the real library.
  \<^item> \<open>ParseFloat s\<close> is \<^verbatim>\<open>strconv.ParseFloat(s, 64)\<close>;
  \<^item> \<open>TimeParse layout value\<close> is \<^verbatim>\<open>time.Parse(layout, value)\<close>, \<open>None\<close> for an error;
  \<^item> \<open>TimeZero\<close> is \<^verbatim>\<open>time.Time{}\<close>;
  \<^item> \<open>f_of_int n\<close> is the conversion \<^verbatim>\<open>float64(n)\<close> of an integer (and the constants 0 and 1);
  \<^item> \<open>f_mul_add x y z\<close> is the value of the float64 expression \<^verbatim>\<open>x*y + z\<close>;
  \<^item> \<open>f_to_uint16 x\<close> and \<open>f_to_int x\<close> are the conversions \<^verbatim>\<open>uint16(x)\<close> and \<^verbatim>\<open>int(x)\<close>;
  \<^item> \<open>TrimFunc_IsSpace s\<close> and \<open>TrimRightFunc_IsSpace s\<close> are
    \<^verbatim>\<open>TrimFunc(s, unicode.IsSpace)\<close> and \<^verbatim>\<open>TrimRightFunc(s, unicode.IsSpace)\<close>, which
    \<^verbatim>\<open>TrimSpace\<close> calls only when it meets a byte outside ASCII.
\<close>

record ('f, 't) golib =
  ParseFloat :: "string \<Rightarrow> numerr_kind + 'f"
  TimeParse :: "string \<Rightarrow> string \<Rightarrow> 't option"
  TimeZero :: "'t"
  f_of_int :: "int \<Rightarrow> 'f"
  f_mul_add :: "'f \<Rightarrow> 'f \<Rightarrow> 'f \<Rightarrow> 'f"
  f_to_uint16 :: "'f \<Rightarrow> 16 word"
  f_to_int :: "'f \<Rightarrow> int"
  TrimFunc_IsSpace :: "string \<Rightarrow> string"
  TrimRightFunc_IsSpace :: "string \<Rightarrow> string"

subsection \<open>bytes.Split, bytes.Join, bytes.Contains, bytes.TrimSuffix\<close>

text \<open>
  A \<^verbatim>\<open>[]byte\<close> holding text and a Go \<^verbatim>\<open>string\<close> are both lists of bytes (\<open>char\<close> is a
  byte).  \<^verbatim>\<open>ReadCFG\<close> only splits at one-byte separators (newline, comma, space), so
  \<open>Split\<close> takes the separator as a byte.  Like \<^verbatim>\<open>bytes.Split\<close> it returns one more
  field than there are separators: one empty field for an empty input.
\<close>

fun Split :: "char \<Rightarrow> string \<Rightarrow> string list" where
  "Split sep [] = [[]]"
| "Split sep (c # cs) =
     (if c = sep then [] # Split sep cs
      else (case Split sep cs of
              [] \<Rightarrow> [[c]]
            | f # fs \<Rightarrow> (c # f) # fs))"

fun Join :: "string list \<Rightarrow> string \<Rightarrow> string" where
  "Join [] sep = []"
| "Join [f] sep = f"
| "Join (f # g # fs) sep = f @ sep @ Join (g # fs) sep"

definition Contains :: "string \<Rightarrow> char \<Rightarrow> bool" where
  "Contains b c = (c \<in> set b)"

definition TrimSuffix :: "string \<Rightarrow> char \<Rightarrow> string" where
  "TrimSuffix b c = (if b \<noteq> [] \<and> last b = c then butlast b else b)"

subsection \<open>strings.TrimSpace and ByteToString\<close>

text \<open>
  \<^verbatim>\<open>TrimSpace\<close> scans from the front over the six ASCII white-space bytes, then from the
  back; at the first byte \<open>\<ge> 0x80\<close> (\<^verbatim>\<open>utf8.RuneSelf\<close>) it hands the rest to the Unicode
  trimming functions.
\<close>

definition asciiSpace :: "char \<Rightarrow> bool" where
  "asciiSpace c =
     (c = CHR 0x09 \<or> c = CHR 0x0A \<or> c = CHR 0x0B \<or> c = CHR 0x0C \<or> c = CHR 0x0D \<or> c = CHR '' '')"

definition RuneSelf :: nat where
  "RuneSelf = 128"

text \<open>The second loop of \<^verbatim>\<open>TrimSpace\<close>, on the reversed remainder \<^verbatim>\<open>s[start:stop]\<close>.\<close>

fun TrimSpace_stop :: "('f, 't) golib \<Rightarrow> string \<Rightarrow> string" where
  "TrimSpace_stop lib [] = []"
| "TrimSpace_stop lib (c # r) =
     (if RuneSelf \<le> of_char c then TrimRightFunc_IsSpace lib (rev (c # r))
      else if asciiSpace c then TrimSpace_stop lib r
      else rev (c # r))"

text \<open>The first loop of \<^verbatim>\<open>TrimSpace\<close>.\<close>

fun TrimSpace :: "('f, 't) golib \<Rightarrow> string \<Rightarrow> string" where
  "TrimSpace lib [] = []"
| "TrimSpace lib (c # s) =
     (if RuneSelf \<le> of_char c then TrimFunc_IsSpace lib (c # s)
      else if asciiSpace c then TrimSpace lib s
      else TrimSpace_stop lib (rev (c # s)))"

definition ByteToString :: "('f, 't) golib \<Rightarrow> string \<Rightarrow> string" where
  "ByteToString lib b = TrimSpace lib b"

subsection \<open>strings.ToLower\<close>

text \<open>
  \<^verbatim>\<open>ReadCFG\<close> uses \<^verbatim>\<open>strings.ToLower\<close> only to compare the result with \<^verbatim>\<open>"s"\<close>.  The
  model lowers the ASCII capitals and leaves every other byte alone; Go's function differs
  only on texts with bytes outside ASCII, whose lower-case form is never the one-byte
  text \<^verbatim>\<open>"s"\<close> either.
\<close>

definition lowerByte :: "char \<Rightarrow> char" where
  "lowerByte c =
     (if (65::nat) \<le> of_char c \<and> of_char c \<le> (90::nat) then char_of (of_char c + (32::nat)) else c)"

definition ToLower :: "string \<Rightarrow> string" where
  "ToLower s = map lowerByte s"

subsection \<open>strconv.ParseUint and strconv.Atoi\<close>

definition isDigit :: "char \<Rightarrow> bool" where
  "isDigit c = ((48::nat) \<le> of_char c \<and> of_char c \<le> (57::nat))"

definition digitVal :: "char \<Rightarrow> nat" where
  "digitVal c = of_char c - 48"

text \<open>
  The digit loop of \<^verbatim>\<open>ParseUint\<close> in base 10: a byte that is not a digit is a syntax
  error, a value above \<open>maxVal\<close> a range error, whichever comes first from the left.
  (Go's separate test \<^verbatim>\<open>n >= cutoff\<close> guards the 64-bit multiplication; it can only fire
  when \<open>n * 10\<close> already exceeds \<open>maxVal\<close>.)
\<close>

fun digitLoop :: "nat \<Rightarrow> string \<Rightarrow> nat \<Rightarrow> numerr_kind + nat" where
  "digitLoop maxVal [] n = Inr n"
| "digitLoop maxVal (c # cs) n =
     (if \<not> isDigit c then Inl ErrSyntax
      else if maxVal < n * 10 + digitVal c then Inl ErrRange
      else digitLoop maxVal cs (n * 10 + digitVal c))"

definition ParseUint :: "string \<Rightarrow> nat \<Rightarrow> error + nat" where
  "ParseUint s bitSize =
     (if s = [] then Inl (NumError ''ParseUint'' s ErrSyntax)
      else (case digitLoop (2 ^ bitSize - 1) s 0 of
              Inl k \<Rightarrow> Inl (NumError ''ParseUint'' s k)
            | Inr n \<Rightarrow> Inr n))"

text \<open>
  \<^verbatim>\<open>Atoi\<close> on a 64-bit platform: an optional sign, then at least one digit, and the
  value must fit \<^verbatim>\<open>int64\<close>.
\<close>

definition Atoi :: "string \<Rightarrow> error + int" where
  "Atoi s =
     (if s = [] then Inl (NumError ''Atoi'' s ErrSyntax)
      else
        let neg = (hd s = CHR ''-'');
            ds = (if hd s = CHR ''-'' \<or> hd s = CHR ''+'' then tl s else s)
        in if ds = [] then Inl (NumError ''Atoi'' s ErrSyntax)
           else (case digitLoop (2 ^ 64 - 1) ds 0 of
                   Inl k \<Rightarrow> Inl (NumError ''Atoi'' s k)
                 | Inr un \<Rightarrow>
                     if \<not> neg \<and> 2 ^ 63 \<le> un then Inl (NumError ''Atoi'' s ErrRange)
                     else if neg \<and> 2 ^ 63 < un then Inl (NumError ''Atoi'' s ErrRange)
                     else Inr (if neg then - int un else int un)))"


section \<open>Data model\<close>

text \<open>
  The structs of \<^verbatim>\<open>comgo.go\<close>.  \<^verbatim>\<open>ChannelA\<close>, \<^verbatim>\<open>ChannelD\<close> and \<^verbatim>\<open>CFG\<close> all have fields
  called \<^verbatim>\<open>ChannelNumber\<close> and \<^verbatim>\<open>ChannelTotal\<close>; the fields of the two channel tables
  carry the prefixes \<open>A_\<close> and \<open>D_\<close> here.  A slice of text or numbers is a list; the
  map \<^verbatim>\<open>ConversionFactors\<close> is a partial function from its keys.
\<close>

record 'f ChannelA =
  A_ChannelTotal :: "16 word"
  A_ChannelNumber :: "16 word list"
  A_ChannelNames :: "string list"
  A_ChannelPhases :: "string list"
  A_ChannelElements :: "string list"
  A_ChannelUnits :: "string list"
  A_ConversionFactors :: "string \<rightharpoonup> 'f list"
  A_TimeFactors :: "'f list"
  A_ValueMin :: "int list"
  A_ValueMax :: "int list"
  A_Primary :: "'f list"
  A_Secondary :: "'f list"
  A_IsSecondaryMeasurement :: "bool list"

record ChannelD =
  D_ChannelTotal :: "16 word"
  D_ChannelNumber :: "16 word list"
  D_ChannelNames :: "string list"
  D_ChannelPhases :: "string list"
  D_ChannelElements :: "string list"
  D_InitialState :: "8 word list"

record 'f SampleRate =
  Rate :: "'f"
  Number :: int

text \<open>
  \<^verbatim>\<open>DataFileContent\<close> is a \<^verbatim>\<open>[]byte\<close> that is sliced by position, and Go checks the upper
  bound of a slice expression against the capacity, not the length.  So the buffer is
  modelled with both: \<open>backing\<close> is the underlying array from the first byte of the
  slice up to its capacity, \<open>slen\<close> the length.  The nil slice has both empty.
\<close>

record byte_slice =
  backing :: "8 word list"
  slen :: nat

record ('f, 't) CFG =
  StationName :: string
  RecordDeviceId :: string
  RevisionYear :: "16 word"
  ChannelNumber :: "16 word"
  AnalogDetail :: "'f ChannelA option"
  DigitDetail :: "ChannelD option"
  LineFrequency :: "16 word"
  SampleRateNum :: "16 word"
  SampleDetail :: "'f SampleRate list"
  StartTime :: "'t"
  TriggerTime :: "'t"
  DataFileType :: string
  TimeFactor :: "'f"
  TimeCode :: string
  LocalCode :: string
  DataFileContent :: byte_slice

definition TimeFormat :: string where
  "TimeFormat = ''02/01/2006T15:04:05.000000''"

text \<open>The zero values \<^verbatim>\<open>ChannelA{}\<close>, \<^verbatim>\<open>ChannelD{}\<close> and \<^verbatim>\<open>CFG{}\<close> (what \<^verbatim>\<open>NewCFG\<close> returns).\<close>

definition ChannelA_zero :: "'f ChannelA" where
  "ChannelA_zero =
     \<lparr>A_ChannelTotal = 0, A_ChannelNumber = [], A_ChannelNames = [], A_ChannelPhases = [],
      A_ChannelElements = [], A_ChannelUnits = [], A_ConversionFactors = Map.empty,
      A_TimeFactors = [], A_ValueMin = [], A_ValueMax = [], A_Primary = [], A_Secondary = [],
      A_IsSecondaryMeasurement = []\<rparr>"

definition ChannelD_zero :: ChannelD where
  "ChannelD_zero =
     \<lparr>D_ChannelTotal = 0, D_ChannelNumber = [], D_ChannelNames = [], D_ChannelPhases = [],
      D_ChannelElements = [], D_InitialState = []\<rparr>"

definition NewCFG :: "('f, 't) golib \<Rightarrow> ('f, 't) CFG" where
  "NewCFG lib =
     \<lparr>StationName = [], RecordDeviceId = [], RevisionYear = 0, ChannelNumber = 0,
      AnalogDetail = None, DigitDetail = None, LineFrequency = 0, SampleRateNum = 0,
      SampleDetail = [], StartTime = TimeZero lib, TriggerTime = TimeZero lib,
      DataFileType = [], TimeFactor = f_of_int lib 0, TimeCode = [], LocalCode = [],
      DataFileContent = \<lparr>backing = [], slen = 0\<rparr>\<rparr>"

subsection \<open>Nil-safe getters\<close>

definition A_GetChannelTotal :: "'f ChannelA option \<Rightarrow> 16 word" where
  "A_GetChannelTotal m = (case m of None \<Rightarrow> 0 | Some a \<Rightarrow> A_ChannelTotal a)"

definition D_GetChannelTotal :: "ChannelD option \<Rightarrow> 16 word" where
  "D_GetChannelTotal m = (case m of None \<Rightarrow> 0 | Some d \<Rightarrow> D_ChannelTotal d)"

text \<open>Indexing a map with a key it does not hold gives the nil slice.\<close>

definition factorOf :: "'f ChannelA \<Rightarrow> string \<Rightarrow> 'f list" where
  "factorOf a k = (case A_ConversionFactors a k of None \<Rightarrow> [] | Some xs \<Rightarrow> xs)"

definition GetSamplingNumber :: "('f, 't) CFG \<Rightarrow> int" where
  "GetSamplingNumber cfg = (case SampleDetail cfg of [] \<Rightarrow> 0 | r # _ \<Rightarrow> Number r)"

section \<open>The configuration decoder ReadCFG\<close>

text \<open>
  \<^verbatim>\<open>ReadCFG\<close> assigns to the fields of its receiver as it goes and returns at the first
  error, so a failing call leaves the fields assigned so far.  Each section of the
  function is a step from the configuration to the configuration after it, together with
  the failure that ended the call, if any; \<open>andThen\<close> runs the next section only
  after a section that did not fail.
\<close>

type_synonym 's step = "'s \<Rightarrow> 's \<times> failure option"

definition andThen :: "'s step \<Rightarrow> 's step \<Rightarrow> 's step" where
  "andThen f g s = (case f s of (s', None) \<Rightarrow> g s' | (s', Some e) \<Rightarrow> (s', Some e))"

text \<open>
  A \<^verbatim>\<open>for i := 0; i < n; i++\<close> loop whose body may end the call: \<open>forLoop body i k\<close> runs
  the body for \<open>i, i + 1, \<dots>\<close>, \<open>k\<close> times.  The bounds of the loops of \<^verbatim>\<open>ReadCFG\<close> are
  read from fields that the loop bodies never assign.
\<close>

primrec forLoop :: "(nat \<Rightarrow> 's step) \<Rightarrow> nat \<Rightarrow> nat \<Rightarrow> 's step" where
  "forLoop body i 0 s = (s, None)"
| "forLoop body i (Suc k) s =
     (case body i s of
        (s', None) \<Rightarrow> forLoop body (Suc i) k s'
      | (s', Some e) \<Rightarrow> (s', Some e))"

text \<open>\<^verbatim>\<open>lines[i]\<close>: \<open>None\<close> stands for the index-out-of-range panic.\<close>

definition lineAt :: "string list \<Rightarrow> nat \<Rightarrow> string option" where
  "lineAt lines i = (if i < length lines then Some (lines ! i) else None)"

text \<open>
  \<^verbatim>\<open>chA\<close> and \<^verbatim>\<open>chD\<close> are local structs whose addresses are stored in the receiver before
  anything is assigned to them, so an assignment to a field of \<^verbatim>\<open>chA\<close> is an update
  behind \<^verbatim>\<open>cfg.AnalogDetail\<close>.
\<close>

definition updA :: "('f ChannelA \<Rightarrow> 'f ChannelA) \<Rightarrow> ('f, 't) CFG \<Rightarrow> ('f, 't) CFG" where
  "updA f cfg = cfg\<lparr>AnalogDetail := map_option f (AnalogDetail cfg)\<rparr>"

definition updD :: "(ChannelD \<Rightarrow> ChannelD) \<Rightarrow> ('f, 't) CFG \<Rightarrow> ('f, 't) CFG" where
  "updD f cfg = cfg\<lparr>DigitDetail := map_option f (DigitDetail cfg)\<rparr>"

text \<open>The idiom \<^verbatim>\<open>if v, err := parse(...); err != nil { return err } else { assign v }\<close>.\<close>

definition tryParse :: "error + 'a \<Rightarrow> ('a \<Rightarrow> 's \<Rightarrow> 's) \<Rightarrow> 's step" where
  "tryParse r upd s = (case r of Inl e \<Rightarrow> (s, Some (Returned e)) | Inr v \<Rightarrow> (upd v s, None))"

definition assign :: "('s \<Rightarrow> 's) \<Rightarrow> 's step" where
  "assign upd s = (upd s, None)"

definition parseFloat64 :: "('f, 't) golib \<Rightarrow> string \<Rightarrow> error + 'f" where
  "parseFloat64 lib s =
     (case ParseFloat lib s of
        Inl k \<Rightarrow> Inl (NumError ''ParseFloat'' s k)
      | Inr x \<Rightarrow> Inr x)"

text \<open>
  Every section reads one line by its index and works on that line: \<open>onLine lines idx
  body\<close> is \<^verbatim>\<open>lines[idx]\<close> followed by \<open>body\<close> on the line, and panics when the index
  is not below \<^verbatim>\<open>len(lines)\<close>.  The index may depend on what was decoded before.
\<close>

definition onLine :: "string list \<Rightarrow> ('s \<Rightarrow> nat) \<Rightarrow> (string \<Rightarrow> 's step) \<Rightarrow> 's step" where
  "onLine lines idx body s =
     (case lineAt lines (idx s) of
        None \<Rightarrow> (s, Some (Panicked IndexOutOfRange))
      | Some l \<Rightarrow> body l s)"

subsection \<open>First line (source lines 491 to 505)\<close>

definition firstLine :: "('f, 't) golib \<Rightarrow> string \<Rightarrow> ('f, 't) CFG step" where
  "firstLine lib l cfg =
     (let tempList = Split CHR '','' l in
      if length tempList < 2 then (cfg, Some (Returned (MissingFirstLine (length tempList))))
      else
        let cfg1 = cfg\<lparr>StationName := ByteToString lib (tempList ! 0),
                       RecordDeviceId := ByteToString lib (tempList ! 1)\<rparr>
        in if 2 < length tempList then
             (case ParseUint (ByteToString lib (tempList ! 2)) 16 of
                Inl e \<Rightarrow> (cfg1, Some (Returned e))
              | Inr v \<Rightarrow> (cfg1\<lparr>RevisionYear := of_nat v\<rparr>, None))
           else (cfg1, None))"

definition readFirstLine :: "('f, 't) golib \<Rightarrow> string list \<Rightarrow> ('f, 't) CFG step" where
  "readFirstLine lib lines = onLine lines (\<lambda>cfg. 0) (firstLine lib)"

subsection \<open>Second line (source lines 507 to 540)\<close>

definition secondLine :: "('f, 't) golib \<Rightarrow> string \<Rightarrow> ('f, 't) CFG step" where
  "secondLine lib l cfg =
     (let tempList = Split CHR '','' l in
      if length tempList < 3 then (cfg, Some (Returned (MissingSecondLine (length tempList))))
      else
        (case ParseUint (ByteToString lib (tempList ! 0)) 16 of
           Inl e \<Rightarrow> (cfg, Some (Returned e))
         | Inr n \<Rightarrow>
             let cfg1 = cfg\<lparr>ChannelNumber := of_nat n\<rparr> in
             if \<not> Contains (tempList ! 1) CHR ''A'' \<or> \<not> Contains (tempList ! 2) CHR ''D''
             then (cfg1, Some (Returned MissingStreamNumbers))
             else
               let cfg2 = cfg1\<lparr>AnalogDetail := Some ChannelA_zero,
                                DigitDetail := Some ChannelD_zero\<rparr>
               in (case ParseUint (TrimSuffix (TrimSpace lib (tempList ! 1)) CHR ''A'') 16 of
                     Inl e \<Rightarrow> (cfg2, Some (Returned e))
                   | Inr a \<Rightarrow>
                       let cfg3 = updA (\<lambda>c. c\<lparr>A_ChannelTotal := of_nat a\<rparr>) cfg2 in
                       (case ParseUint (TrimSuffix (TrimSpace lib (tempList ! 2)) CHR ''D'') 16 of
                          Inl e \<Rightarrow> (cfg3, Some (Returned e))
                        | Inr d \<Rightarrow>
                            (updD (\<lambda>c. c\<lparr>D_ChannelTotal := of_nat d\<rparr>) cfg3, None)))))"

definition readSecondLine :: "('f, 't) golib \<Rightarrow> string list \<Rightarrow> ('f, 't) CFG step" where
  "readSecondLine lib lines = onLine lines (\<lambda>cfg. 1) (secondLine lib)"

subsection \<open>Analog channel rows (source lines 542 to 607)\<close>

definition channelName :: "('f, 't) golib \<Rightarrow> string \<Rightarrow> string" where
  "channelName lib field = ByteToString lib (Join (Split CHR '' '' field) ''_'')"

definition analogMandatory :: "('f, 't) golib \<Rightarrow> string list \<Rightarrow> ('f, 't) CFG step" where
  "analogMandatory lib tempList =
     andThen (tryParse (Atoi (ByteToString lib (tempList ! 0)))
                (\<lambda>num. updA (\<lambda>c. c\<lparr>A_ChannelNumber := A_ChannelNumber c @ [word_of_int num]\<rparr>)))
    (andThen (assign (updA (\<lambda>c. c
                \<lparr>A_ChannelNames := A_ChannelNames c @ [channelName lib (tempList ! 1)],
                 A_ChannelPhases := A_ChannelPhases c @ [ByteToString lib (tempList ! 2)],
                 A_ChannelElements := A_ChannelElements c @ [ByteToString lib (tempList ! 3)],
                 A_ChannelUnits := A_ChannelUnits c @ [ByteToString lib (tempList ! 4)]\<rparr>)))
    (andThen (tryParse (parseFloat64 lib (ByteToString lib (tempList ! 5)))
                (\<lambda>num. updA (\<lambda>c. c\<lparr>A_ConversionFactors :=
                   (A_ConversionFactors c)(''a'' \<mapsto> factorOf c ''a'' @ [num])\<rparr>)))
    (andThen (tryParse (parseFloat64 lib (ByteToString lib (tempList ! 6)))
                (\<lambda>num. updA (\<lambda>c. c\<lparr>A_ConversionFactors :=
                   (A_ConversionFactors c)(''b'' \<mapsto> factorOf c ''b'' @ [num])\<rparr>)))
    (andThen (tryParse (parseFloat64 lib (ByteToString lib (tempList ! 7)))
                (\<lambda>num. updA (\<lambda>c. c\<lparr>A_TimeFactors := A_TimeFactors c @ [num]\<rparr>)))
    (andThen (tryParse (Atoi (ByteToString lib (tempList ! 8)))
                (\<lambda>num. updA (\<lambda>c. c\<lparr>A_ValueMin := A_ValueMin c @ [num]\<rparr>)))
             (tryParse (Atoi (ByteToString lib (tempList ! 9)))
                (\<lambda>num. updA (\<lambda>c. c\<lparr>A_ValueMax := A_ValueMax c @ [num]\<rparr>))))))))"

text \<open>
  The three optional trailing fields.  A primary or secondary ratio that does not parse
  is skipped: the test is \<^verbatim>\<open>err == nil\<close>, and there is no \<^verbatim>\<open>return\<close>.
\<close>

definition optPrimary :: "('f, 't) golib \<Rightarrow> string list \<Rightarrow> ('f, 't) CFG \<Rightarrow> ('f, 't) CFG" where
  "optPrimary lib tempList cfg =
     (if 10 < length tempList then
        (case parseFloat64 lib (ByteToString lib (tempList ! 10)) of
           Inr num \<Rightarrow> updA (\<lambda>c. c\<lparr>A_Primary := A_Primary c @ [num]\<rparr>) cfg
         | Inl e \<Rightarrow> cfg)
      else cfg)"

definition optSecondary :: "('f, 't) golib \<Rightarrow> string list \<Rightarrow> ('f, 't) CFG \<Rightarrow> ('f, 't) CFG" where
  "optSecondary lib tempList cfg =
     (if 11 < length tempList then
        (case parseFloat64 lib (ByteToString lib (tempList ! 11)) of
           Inr num \<Rightarrow> updA (\<lambda>c. c\<lparr>A_Secondary := A_Secondary c @ [num]\<rparr>) cfg
         | Inl e \<Rightarrow> cfg)
      else cfg)"

definition optIsSecondary :: "('f, 't) golib \<Rightarrow> string list \<Rightarrow> ('f, 't) CFG \<Rightarrow> ('f, 't) CFG" where
  "optIsSecondary lib tempList cfg =
     (if 12 < length tempList then
        updA (\<lambda>c. c\<lparr>A_IsSecondaryMeasurement := A_IsSecondaryMeasurement c @
                     [ToLower (ByteToString lib (tempList ! 12)) = ''s'']\<rparr>) cfg
      else cfg)"

definition analogOptional :: "('f, 't) golib \<Rightarrow> string list \<Rightarrow> ('f, 't) CFG step" where
  "analogOptional lib tempList =
     andThen (assign (optPrimary lib tempList))
    (andThen (assign (optSecondary lib tempList))
             (assign (optIsSecondary lib tempList)))"

definition analogLine :: "('f, 't) golib \<Rightarrow> nat \<Rightarrow> string \<Rightarrow> ('f, 't) CFG step" where
  "analogLine lib i l cfg =
     (let tempList = Split CHR '','' l in
      if length tempList < 10 then (cfg, Some (Returned (MissingAnalogInfo i)))
      else andThen (analogMandatory lib tempList) (analogOptional lib tempList) cfg)"

definition analogRow :: "('f, 't) golib \<Rightarrow> string list \<Rightarrow> nat \<Rightarrow> ('f, 't) CFG step" where
  "analogRow lib lines i = onLine lines (\<lambda>cfg. 2 + i) (analogLine lib i)"

definition readAnalogChannels :: "('f, 't) golib \<Rightarrow> string list \<Rightarrow> ('f, 't) CFG step" where
  "readAnalogChannels lib lines cfg =
     forLoop (analogRow lib lines) 0 (unat (A_GetChannelTotal (AnalogDetail cfg))) cfg"

subsection \<open>Digital channel rows (source lines 609 to 639)\<close>

definition digitFields :: "('f, 't) golib \<Rightarrow> string list \<Rightarrow> ('f, 't) CFG step" where
  "digitFields lib tempList =
     andThen (tryParse (Atoi (ByteToString lib (tempList ! 0)))
                (\<lambda>num. updD (\<lambda>c. c\<lparr>D_ChannelNumber := D_ChannelNumber c @ [word_of_int num]\<rparr>)))
    (andThen (assign (updD (\<lambda>c. c
                \<lparr>D_ChannelNames := D_ChannelNames c @ [channelName lib (tempList ! 1)],
                 D_ChannelPhases := D_ChannelPhases c @ [ByteToString lib (tempList ! 2)],
                 D_ChannelElements := D_ChannelElements c @
                   [if 3 < length tempList then ByteToString lib (tempList ! 3) else []]\<rparr>)))
             (if 4 < length tempList then
                tryParse (ParseUint (ByteToString lib (tempList ! 4)) 8)
                  (\<lambda>num. updD (\<lambda>c. c\<lparr>D_InitialState := D_InitialState c @ [of_nat num]\<rparr>))
              else assign (updD (\<lambda>c. c\<lparr>D_InitialState := D_InitialState c @ [2]\<rparr>))))"

definition digitLine :: "('f, 't) golib \<Rightarrow> nat \<Rightarrow> string \<Rightarrow> ('f, 't) CFG step" where
  "digitLine lib i l cfg =
     (let tempList = Split CHR '','' l in
      if length tempList < 3 then (cfg, Some (Returned (MissingDigitInfo i)))
      else digitFields lib tempList cfg)"

definition digitRow :: "('f, 't) golib \<Rightarrow> string list \<Rightarrow> nat \<Rightarrow> ('f, 't) CFG step" where
  "digitRow lib lines i =
     onLine lines (\<lambda>cfg. 2 + unat (A_GetChannelTotal (AnalogDetail cfg)) + i) (digitLine lib i)"

definition readDigitChannels :: "('f, 't) golib \<Rightarrow> string list \<Rightarrow> ('f, 't) CFG step" where
  "readDigitChannels lib lines cfg =
     forLoop (digitRow lib lines) 0 (unat (D_GetChannelTotal (DigitDetail cfg))) cfg"

subsection \<open>Line frequency and sample rates (source lines 641 to 679)\<close>

text \<open>
  Outside the loops the line index is computed in \<^verbatim>\<open>uint16\<close>, the type of the channel
  totals and of \<^verbatim>\<open>SampleRateNum\<close>, so it wraps around at \<open>2 ^ 16\<close>; inside the loops the
  totals are converted to \<^verbatim>\<open>int\<close> first.
\<close>

definition afterChannels :: "16 word \<Rightarrow> ('f, 't) CFG \<Rightarrow> nat" where
  "afterChannels k cfg =
     unat (k + A_GetChannelTotal (AnalogDetail cfg) + D_GetChannelTotal (DigitDetail cfg))"

definition afterRates :: "16 word \<Rightarrow> ('f, 't) CFG \<Rightarrow> nat" where
  "afterRates k cfg =
     unat (k + SampleRateNum cfg + A_GetChannelTotal (AnalogDetail cfg)
             + D_GetChannelTotal (DigitDetail cfg))"

definition lineFrequency :: "('f, 't) golib \<Rightarrow> string \<Rightarrow> ('f, 't) CFG step" where
  "lineFrequency lib l =
     (let tempList = Split CHR '','' l in
      tryParse (parseFloat64 lib (ByteToString lib (tempList ! 0)))
        (\<lambda>num c. c\<lparr>LineFrequency := f_to_uint16 lib num\<rparr>))"

definition readLineFrequency :: "('f, 't) golib \<Rightarrow> string list \<Rightarrow> ('f, 't) CFG step" where
  "readLineFrequency lib lines = onLine lines (afterChannels 2) (lineFrequency lib)"

text \<open>A declared number of rates of 0 is stored as 1 (source lines 654 to 661).\<close>

definition sampleRateNum :: "('f, 't) golib \<Rightarrow> string \<Rightarrow> ('f, 't) CFG step" where
  "sampleRateNum lib l =
     (let tempList = Split CHR '','' l in
      tryParse (ParseUint (ByteToString lib (tempList ! 0)) 16)
        (\<lambda>num c. c\<lparr>SampleRateNum :=
                    (if (of_nat num :: 16 word) = 0 then 1 else of_nat num)\<rparr>))"

definition readSampleRateNum :: "('f, 't) golib \<Rightarrow> string list \<Rightarrow> ('f, 't) CFG step" where
  "readSampleRateNum lib lines = onLine lines (afterChannels 3) (sampleRateNum lib)"

text \<open>The second field of a rate line is read without a test of the number of fields.\<close>

definition sampleLine :: "('f, 't) golib \<Rightarrow> string \<Rightarrow> ('f, 't) CFG step" where
  "sampleLine lib l cfg =
     (let tempList = Split CHR '','' l in
      case parseFloat64 lib (ByteToString lib (tempList ! 0)) of
        Inl e \<Rightarrow> (cfg, Some (Returned e))
      | Inr rate \<Rightarrow>
          if length tempList < 2 then (cfg, Some (Panicked IndexOutOfRange))
          else (case parseFloat64 lib (ByteToString lib (tempList ! 1)) of
                  Inl e \<Rightarrow> (cfg, Some (Returned e))
                | Inr num \<Rightarrow>
                    (cfg\<lparr>SampleDetail := SampleDetail cfg @
                           [\<lparr>Rate = rate, Number = f_to_int lib num\<rparr>]\<rparr>, None)))"

definition sampleRow :: "('f, 't) golib \<Rightarrow> string list \<Rightarrow> nat \<Rightarrow> ('f, 't) CFG step" where
  "sampleRow lib lines i =
     onLine lines (\<lambda>cfg. 4 + i + unat (A_GetChannelTotal (AnalogDetail cfg))
                          + unat (D_GetChannelTotal (DigitDetail cfg)))
       (sampleLine lib)"

definition readSampleRates :: "('f, 't) golib \<Rightarrow> string list \<Rightarrow> ('f, 't) CFG step" where
  "readSampleRates lib lines cfg =
     forLoop (sampleRow lib lines) 0 (unat (SampleRateNum cfg)) cfg"

subsection \<open>Timestamps, data file type, time factor (source lines 681 to 711)\<close>

definition parseTimestamp :: "('f, 't) golib \<Rightarrow> string \<Rightarrow> error + 't" where
  "parseTimestamp lib l =
     (let tempList = Split CHR '','' l;
          v = ByteToString lib (Join tempList ''T'')
      in case TimeParse lib TimeFormat v of
           None \<Rightarrow> Inl (TimeParseError TimeFormat v)
         | Some t \<Rightarrow> Inr t)"

definition startTime :: "('f, 't) golib \<Rightarrow> string \<Rightarrow> ('f, 't) CFG step" where
  "startTime lib l = tryParse (parseTimestamp lib l) (\<lambda>start c. c\<lparr>StartTime := start\<rparr>)"

definition readStartTime :: "('f, 't) golib \<Rightarrow> string list \<Rightarrow> ('f, 't) CFG step" where
  "readStartTime lib lines = onLine lines (afterRates 4) (startTime lib)"

definition triggerTime :: "('f, 't) golib \<Rightarrow> string \<Rightarrow> ('f, 't) CFG step" where
  "triggerTime lib l = tryParse (parseTimestamp lib l) (\<lambda>trigger c. c\<lparr>TriggerTime := trigger\<rparr>)"

definition readTriggerTime :: "('f, 't) golib \<Rightarrow> string list \<Rightarrow> ('f, 't) CFG step" where
  "readTriggerTime lib lines = onLine lines (afterRates 5) (triggerTime lib)"

definition dataFileType :: "('f, 't) golib \<Rightarrow> string \<Rightarrow> ('f, 't) CFG step" where
  "dataFileType lib l =
     (let tempList = Split CHR '','' l in
      assign (\<lambda>c. c\<lparr>DataFileType := ByteToString lib (tempList ! 0)\<rparr>))"

definition readDataFileType :: "('f, 't) golib \<Rightarrow> string list \<Rightarrow> ('f, 't) CFG step" where
  "readDataFileType lib lines = onLine lines (afterRates 6) (dataFileType lib)"

definition timeFactor :: "('f, 't) golib \<Rightarrow> string \<Rightarrow> ('f, 't) CFG step" where
  "timeFactor lib l =
     (let tempList = Split CHR '','' l in
      if tempList ! 0 \<noteq> [] then
        tryParse (parseFloat64 lib (ByteToString lib (tempList ! 0)))
          (\<lambda>num c. c\<lparr>TimeFactor := num\<rparr>)
      else assign (\<lambda>c. c\<lparr>TimeFactor := f_of_int lib 1\<rparr>))"

definition readTimeFactor :: "('f, 't) golib \<Rightarrow> string list \<Rightarrow> ('f, 't) CFG step" where
  "readTimeFactor lib lines = onLine lines (afterRates 7) (timeFactor lib)"

subsection \<open>Optional time code line (source lines 713 to 721)\<close>

definition timeCode :: "('f, 't) golib \<Rightarrow> string \<Rightarrow> ('f, 't) CFG step" where
  "timeCode lib l =
     (let tempList = Split CHR '','' l in
      if length tempList = 2 then
        assign (\<lambda>c. c\<lparr>TimeCode := ByteToString lib (tempList ! 0),
                      LocalCode := ByteToString lib (tempList ! 1)\<rparr>)
      else assign (\<lambda>c. c))"

text \<open>The guard is \<^verbatim>\<open>len(lines) >= int(optionalLineNum)\<close>, then \<^verbatim>\<open>lines[optionalLineNum]\<close>.\<close>

definition readTimeCode :: "('f, 't) golib \<Rightarrow> string list \<Rightarrow> ('f, 't) CFG step" where
  "readTimeCode lib lines cfg =
     (if afterRates 8 cfg \<le> length lines then onLine lines (afterRates 8) (timeCode lib) cfg
      else (cfg, None))"

subsection \<open>ReadCFG\<close>

definition mandatorySections :: "('f, 't) golib \<Rightarrow> string list \<Rightarrow> ('f, 't) CFG step" where
  "mandatorySections lib lines =
     andThen (readFirstLine lib lines)
    (andThen (readSecondLine lib lines)
    (andThen (readAnalogChannels lib lines)
    (andThen (readDigitChannels lib lines)
    (andThen (readLineFrequency lib lines)
    (andThen (readSampleRateNum lib lines)
    (andThen (readSampleRates lib lines)
    (andThen (readStartTime lib lines)
    (andThen (readTriggerTime lib lines)
    (andThen (readDataFileType lib lines)
             (readTimeFactor lib lines))))))))))"

definition decodeLines :: "('f, 't) golib \<Rightarrow> string list \<Rightarrow> ('f, 't) CFG step" where
  "decodeLines lib lines = andThen (mandatorySections lib lines) (readTimeCode lib lines)"

text \<open>
  The reader is what \<^verbatim>\<open>ioutil.ReadAll\<close> makes of it: its whole content, or an error.
  The result is the receiver after the call and the failure, \<open>None\<close> for \<^verbatim>\<open>return nil\<close>.
\<close>

definition ReadCFG ::
  "('f, 't) golib \<Rightarrow> ('f, 't) CFG \<Rightarrow> error + string \<Rightarrow> ('f, 't) CFG \<times> failure option" where
  "ReadCFG lib cfg rd =
     (case rd of
        Inl err \<Rightarrow> (cfg, Some (Returned err))
      | Inr content \<Rightarrow> decodeLines lib (Split CHR ''\<newline>'' content) cfg)"


section \<open>The sample extractor GetAnalogChannelData\<close>

text \<open>
  The number of bytes of a record.  In the source the digital part is
  \<^verbatim>\<open>int(math.Ceil(float64(int(D))/float64(16)))<<1\<close> with \<open>D\<close> a \<^verbatim>\<open>uint16\<close>: every integer
  below \<open>2 ^ 53\<close> is a float64, dividing by 16 only changes the exponent, and the ceiling
  of a float64 is exact, so the three float64 operations are computed on rationals here.
  In Go \<^verbatim>\<open><<\<close> binds tighter than \<^verbatim>\<open>+\<close>.
\<close>

definition NB :: "16 word \<Rightarrow> 16 word \<Rightarrow> nat" where
  "NB analogTotal digitTotal =
     8 + push_bit 1 (unat analogTotal)
       + push_bit 1 (nat \<lceil>(of_nat (unat digitTotal) :: rat) / 16\<rceil>)"

text \<open>
  \<^verbatim>\<open>b[lo:hi]\<close> on the buffer: the bounds are checked against the capacity; \<open>None\<close> is the
  slice-bounds panic.
\<close>

definition sliceOf :: "byte_slice \<Rightarrow> nat \<Rightarrow> nat \<Rightarrow> 8 word list option" where
  "sliceOf b lo hi =
     (if lo \<le> hi \<and> hi \<le> length (backing b) then Some (take (hi - lo) (drop lo (backing b)))
      else None)"

definition le_int16 :: "8 word \<Rightarrow> 8 word \<Rightarrow> 16 word" where
  "le_int16 b0 b1 = ucast b0 OR push_bit 8 (ucast b1)"

fun decode16 :: "8 word list \<Rightarrow> 16 word list" where
  "decode16 (b0 # b1 # bs) = le_int16 b0 b1 # decode16 bs"
| "decode16 bs = []"

text \<open>
  \<^verbatim>\<open>binary.Read(bytes.NewReader(bs), binary.LittleEndian, &value)\<close> for a \<^verbatim>\<open>value\<close> of
  \<open>n\<close> 16-bit integers: it needs \<open>2 * n\<close> bytes.
\<close>

definition readInt16s :: "8 word list \<Rightarrow> nat \<Rightarrow> error + 16 word list" where
  "readInt16s bs n =
     (if length bs < 2 * n then Inl (if bs = [] then EOF else ErrUnexpectedEOF)
      else Inr (decode16 (take (2 * n) bs)))"

text \<open>
  The loop over the records (source lines 783 to 796): \<open>i\<close> is the loop variable, \<open>k\<close>
  the number of iterations left, \<open>result\<close> the values appended so far.  The 16-bit
  values are kept as words and read as signed (\<^verbatim>\<open>int16\<close>) when they are converted.
\<close>

primrec sampleLoop ::
  "('f, 't) golib \<Rightarrow> byte_slice \<Rightarrow> nat \<Rightarrow> 'f ChannelA \<Rightarrow> 16 word \<Rightarrow> nat \<Rightarrow> nat \<Rightarrow> 'f list
     \<Rightarrow> failure + 'f list" where
  "sampleLoop lib dataFileContent nb analogDetail num i 0 result = Inr result"
| "sampleLoop lib dataFileContent nb analogDetail num i (Suc k) result =
     (case sliceOf dataFileContent (i * nb) (i * nb + nb) of
        None \<Rightarrow> Inl (Panicked SliceBoundsOutOfRange)
      | Some s \<Rightarrow>
          (case readInt16s (drop 8 s) ((nb - 8) div 2) of
             Inl err \<Rightarrow> Inl (Returned err)
           | Inr val \<Rightarrow>
               let j = unat (num - 1) in
               if length val \<le> j \<or> length (factorOf analogDetail ''a'') \<le> j
                  \<or> length (factorOf analogDetail ''b'') \<le> j
               then Inl (Panicked IndexOutOfRange)
               else sampleLoop lib dataFileContent nb analogDetail num (Suc i) k
                      (result @ [f_mul_add lib (f_of_int lib (sint (val ! j)))
                                   (factorOf analogDetail ''a'' ! j)
                                   (factorOf analogDetail ''b'' ! j)])))"

text \<open>
  The receiver may be nil (\<open>None\<close>).  The test \<^verbatim>\<open>dataFileContent == nil\<close> of source line
  775 comes after the buffer was found not to be empty, so it never holds.
\<close>

definition GetAnalogChannelData ::
  "('f, 't) golib \<Rightarrow> ('f, 't) CFG option \<Rightarrow> 16 word \<Rightarrow> failure + 'f list" where
  "GetAnalogChannelData lib cfgp num =
     (case cfgp of
        None \<Rightarrow> Inl (Returned (ErrorsNew ''invalid cfg file, read .cfg first''))
      | Some cfg \<Rightarrow>
          if slen (DataFileContent cfg) = 0
          then Inl (Returned (ErrorsNew ''not data content, read .dat first''))
          else
            (case AnalogDetail cfg of
               None \<Rightarrow> Inl (Returned (ErrorsNew ''invalid analog channel''))
             | Some analogDetail \<Rightarrow>
                 if A_ChannelTotal analogDetail < num
                 then Inl (Returned (ErrorsNew
                        ''analog channel number greater than the total number of channels''))
                 else if num < 1
                 then Inl (Returned (ErrorsNew ''analog channel number cannot be less than 1''))
                 else
                   (case DigitDetail cfg of
                      None \<Rightarrow> Inl (Returned (ErrorsNew ''invalid digital channel''))
                    | Some digitDetail \<Rightarrow>
                        let nb = NB (A_ChannelTotal analogDetail) (D_ChannelTotal digitDetail) in
                        (case SampleDetail cfg of
                           [] \<Rightarrow> Inl (Returned (ErrorsNew ''invalid or not enough sample detail''))
                         | r # rs \<Rightarrow>
                             sampleLoop lib (DataFileContent cfg) nb analogDetail num 0
                               (nat (Number r)) []))))"

text \<open>\<^verbatim>\<open>ReadDAT\<close> stores the content of the data file.\<close>

definition ReadDAT :: "('f, 't) CFG \<Rightarrow> error + byte_slice \<Rightarrow> ('f, 't) CFG \<times> failure option" where
  "ReadDAT cfg rd =
     (case rd of
        Inl err \<Rightarrow> (cfg, Some (Returned err))
      | Inr content \<Rightarrow> (cfg\<lparr>DataFileContent := content\<rparr>, None))"

section \<open>An instance of the library for concrete runs\<close>

text \<open>
  To run the decoder on a concrete document the parameters need values.  In
  \<open>decimal_lib\<close> a float64 is the rational number it denotes, which is exact for the
  numbers of the examples below (small integers and their products and sums), and
  \<open>ParseFloat\<close> reads plain decimal numerals \<^verbatim>\<open>[+-]digits[.digits]\<close>.  The two Unicode
  trimming functions are only reached on bytes outside ASCII, which the examples do not
  contain.
\<close>

fun digitsVal :: "string \<Rightarrow> nat \<Rightarrow> nat option" where
  "digitsVal [] n = Some n"
| "digitsVal (c # cs) n = (if isDigit c then digitsVal cs (n * 10 + digitVal c) else None)"

definition decimal_unsigned :: "string \<Rightarrow> rat option" where
  "decimal_unsigned s =
     (case Split CHR ''.'' s of
        [ip] \<Rightarrow> (if ip = [] then None else map_option of_nat (digitsVal ip 0))
      | [ip, fp] \<Rightarrow>
          (if ip = [] \<or> fp = [] then None
           else (case (digitsVal ip 0, digitsVal fp 0) of
                   (Some i, Some f) \<Rightarrow> Some (of_nat i + of_nat f / 10 ^ length fp)
                 | _ \<Rightarrow> None))
      | _ \<Rightarrow> None)"

definition decimal_ParseFloat :: "string \<Rightarrow> numerr_kind + rat" where
  "decimal_ParseFloat s =
     (case s of
        [] \<Rightarrow> Inl ErrSyntax
      | c # cs \<Rightarrow>
          (case (if c = CHR ''-'' \<or> c = CHR ''+'' then decimal_unsigned cs else decimal_unsigned s) of
             None \<Rightarrow> Inl ErrSyntax
           | Some r \<Rightarrow> Inr (if c = CHR ''-'' then - r else r)))"

text \<open>
  \<^verbatim>\<open>time.Parse\<close> for the layout \<open>TimeFormat\<close>, whose elements are: two-digit day,
  \<^verbatim>\<open>/\<close>, two-digit month, \<^verbatim>\<open>/\<close>, four-digit year, \<^verbatim>\<open>T\<close>, hour (one or two digits),
  \<^verbatim>\<open>:\<close>, two-digit minute, \<^verbatim>\<open>:\<close>, two-digit second, and a fraction of exactly six
  digits after a period.  The result is in UTC; every way of failing is \<open>None\<close>.
\<close>

record Time =
  year :: nat
  month :: nat
  day :: nat
  hour :: nat
  minute :: nat
  second :: nat
  nanosecond :: nat

text \<open>\<^verbatim>\<open>getnum\<close> of package time: a number of two digits, or of one if not \<open>fixed\<close>.\<close>

fun getnum :: "string \<Rightarrow> bool \<Rightarrow> (nat \<times> string) option" where
  "getnum (a # b # r) fixed =
     (if \<not> isDigit a then None
      else if \<not> isDigit b then (if fixed then None else Some (digitVal a, b # r))
      else Some (digitVal a * 10 + digitVal b, r))"
| "getnum [a] fixed = (if isDigit a \<and> \<not> fixed then Some (digitVal a, []) else None)"
| "getnum [] fixed = None"

text \<open>\<^verbatim>\<open>skip\<close> for a one-byte literal of the layout.\<close>

fun skipLit :: "char \<Rightarrow> string \<Rightarrow> string option" where
  "skipLit c [] = None"
| "skipLit c (x # r) = (if x = c then Some r else None)"

definition isLeap :: "nat \<Rightarrow> bool" where
  "isLeap y = (y mod 4 = 0 \<and> (y mod 100 \<noteq> 0 \<or> y mod 400 = 0))"

definition daysIn :: "nat \<Rightarrow> nat \<Rightarrow> nat" where
  "daysIn m y =
     (if m = 2 then (if isLeap y then 29 else 28)
      else if m = 4 \<or> m = 6 \<or> m = 9 \<or> m = 11 then 30 else 31)"

definition parseYear :: "string \<Rightarrow> (nat \<times> string) option" where
  "parseYear v =
     (if length v < 4 then None
      else map_option (\<lambda>y. (y, drop 4 v)) (digitsVal (take 4 v) 0))"

text \<open>The fraction: a period (or a comma) and six digits, scaled to nanoseconds.\<close>

definition parseFraction :: "string \<Rightarrow> (nat \<times> string) option" where
  "parseFraction v =
     (if length v < 7 then None
      else if hd v \<noteq> CHR ''.'' \<and> hd v \<noteq> CHR '','' then None
      else map_option (\<lambda>us. (us * 1000, drop 7 v)) (digitsVal (take 6 (tl v)) 0))"

definition parseTimeFormat :: "string \<Rightarrow> Time option" where
  "parseTimeFormat v0 =
     Option.bind (getnum v0 True) (\<lambda>(d, v1).
     Option.bind (skipLit CHR ''/'' v1) (\<lambda>v2.
     Option.bind (getnum v2 True) (\<lambda>(mo, v3).
     Option.bind (skipLit CHR ''/'' v3) (\<lambda>v4.
     Option.bind (parseYear v4) (\<lambda>(y, v5).
     Option.bind (skipLit CHR ''T'' v5) (\<lambda>v6.
     Option.bind (getnum v6 False) (\<lambda>(h, v7).
     Option.bind (skipLit CHR '':'' v7) (\<lambda>v8.
     Option.bind (getnum v8 True) (\<lambda>(mi, v9).
     Option.bind (skipLit CHR '':'' v9) (\<lambda>v10.
     Option.bind (getnum v10 True) (\<lambda>(s, v11).
     Option.bind (parseFraction v11) (\<lambda>(ns, v12).
       if v12 \<noteq> [] \<or> mo = 0 \<or> 12 < mo \<or> 24 \<le> h \<or> 60 \<le> mi \<or> 60 \<le> s
          \<or> d < 1 \<or> daysIn mo y < d
       then None
       else Some \<lparr>year = y, month = mo, day = d, hour = h, minute = mi, second = s,
                  nanosecond = ns\<rparr>))))))))))))"

definition decimal_lib :: "(rat, Time) golib" where
  "decimal_lib =
     \<lparr>ParseFloat = decimal_ParseFloat,
      TimeParse = (\<lambda>layout v. if layout = TimeFormat then parseTimeFormat v else None),
      TimeZero = \<lparr>year = 1, month = 1, day = 1, hour = 0, minute = 0, second = 0,
                  nanosecond = 0\<rparr>,
      f_of_int = of_int,
      f_mul_add = (\<lambda>x y z. x * y + z),
      f_to_uint16 = (\<lambda>x. word_of_int (if 0 \<le> x then \<lfloor>x\<rfloor> else \<lceil>x\<rceil>)),
      f_to_int = (\<lambda>x. if 0 \<le> x then \<lfloor>x\<rfloor> else \<lceil>x\<rceil>),
      TrimFunc_IsSpace = id,
      TrimRightFunc_IsSpace = id\<rparr>"



section \<open>Notions used to state the properties\<close>

text \<open>
  The sections of \<^verbatim>\<open>ReadCFG\<close> that come before the line with the number of sample
  rates: after them the index of that line, \<open>afterChannels 3\<close>, is known.
\<close>

definition beforeSampleRateNum :: "('f, 't) golib \<Rightarrow> string list \<Rightarrow> ('f, 't) CFG step" where
  "beforeSampleRateNum lib lines =
     andThen (readFirstLine lib lines)
    (andThen (readSecondLine lib lines)
    (andThen (readAnalogChannels lib lines)
    (andThen (readDigitChannels lib lines)
             (readLineFrequency lib lines))))"

text \<open>
  Modelled from the spec's words, to be compared with the loop of the extractor: the raw
  sample of channel \<open>ch\<close> (counted from 1) in record \<open>i\<close> of a buffer whose records have
  \<open>nb\<close> bytes is the signed 16-bit little-endian number at offset \<open>8 + 2 * (ch - 1)\<close> of
  the record.
\<close>

definition rawSample :: "8 word list \<Rightarrow> nat \<Rightarrow> nat \<Rightarrow> nat \<Rightarrow> int" where
  "rawSample bytes nb ch i =
     (let off = i * nb + 8 + 2 * (ch - 1);
          u = uint (bytes ! off) + 256 * uint (bytes ! (off + 1))
      in if u < 32768 then u else u - 65536)"

text \<open>A projection of the configuration that a step leaves as it is, failing or not.\<close>

definition keeps :: "('s \<Rightarrow> 'a) \<Rightarrow> 's step \<Rightarrow> bool" where
  "keeps p f = (\<forall>s. p (fst (f s)) = p s)"

subsection \<open>Example documents\<close>

text \<open>
  A configuration with one analog channel, no digital channel and one sample rate; the
  declared total, the line with the number of rates, the sample count, the two timestamp
  lines and the end of the document are left open.
\<close>

definition example_doc :: "string \<Rightarrow> string \<Rightarrow> string \<Rightarrow> string \<Rightarrow> string \<Rightarrow> string" where
  "example_doc tot nrates cnt stamp ending =
     ''s,d,1999\<newline>'' @ tot @ '',1A,0D\<newline>1, Line A ,,,V,2.0,1.0,0,-9,9,x,y,P\<newline>60\<newline>''
     @ nrates @ ''\<newline>1200,'' @ cnt @ ''\<newline>'' @ stamp @ ''\<newline>'' @ stamp
     @ ''\<newline>BINARY\<newline>1'' @ ending"

definition stamp2 :: string where
  "stamp2 = ''01/02/2020,10:30:15.000250''"

definition stamp6 :: string where
  "stamp6 = ''01,02,2020,10,30,15.000250''"

text \<open>The configuration decoded from an example document, and whether decoding failed.\<close>

definition decoded :: "string \<Rightarrow> (rat, Time) CFG" where
  "decoded doc = fst (ReadCFG decimal_lib (NewCFG decimal_lib) (Inr doc))"

definition decode_failure :: "string \<Rightarrow> failure option" where
  "decode_failure doc = snd (ReadCFG decimal_lib (NewCFG decimal_lib) (Inr doc))"

text \<open>A buffer whose capacity is its length.\<close>

definition buffer :: "8 word list \<Rightarrow> byte_slice" where
  "buffer bs = \<lparr>backing = bs, slen = length bs\<rparr>"

section \<open>Properties\<close>

subsection \<open>Evaluation rules and ceilings\<close>

lemmas trim_simps = ByteToString_def asciiSpace_def RuneSelf_def

lemma ceil16_rat: "nat \<lceil>(of_nat n :: rat) / 16\<rceil> = (n + 15) div 16"
proof -
  have "\<lceil>(of_int (int n) :: rat) / of_int 16\<rceil> = - (- int n div 16)"
    by (rule ceiling_divide_eq_div)
  then have "\<lceil>(of_nat n :: rat) / 16\<rceil> = - (- int n div 16)" by simp
  then show ?thesis by linarith
qed

lemma ceil16_real: "nat \<lceil>real n / 16\<rceil> = (n + 15) div 16"
proof -
  have "\<lceil>(of_int (int n) :: real) / of_int 16\<rceil> = - (- int n div 16)"
    by (rule ceiling_divide_eq_div)
  then have "\<lceil>real n / 16\<rceil> = - (- int n div 16)" by simp
  then show ?thesis by linarith
qed

lemma NB_div: "NB a d = 8 + 2 * unat a + 2 * ((unat d + 15) div 16)"
  unfolding NB_def push_bit_eq_mult ceil16_rat by simp

subsection \<open>C2: the size of a record\<close>

text \<open>
  Claim C2.  For a configuration with \<open>A\<close> analog and \<open>D\<close> digital channels the record
  size \<open>NB\<close> that the extractor computes with shifts is \<open>8 + 2 * A + 2 * \<lceil>D / 16\<rceil>\<close>; for
  \<open>A = 3\<close> and \<open>D = 20\<close> it is 18.
\<close>

theorem NB_formula:
  "NB a d = 8 + 2 * unat a + 2 * nat \<lceil>real (unat d) / 16\<rceil> \<and> NB 3 20 = 18"
  unfolding NB_div ceil16_real by simp

subsection \<open>C4: a document that ends before a mandatory line\<close>

text \<open>
  Claim C4 says that a line index beyond the document in a mandatory section gives a typed
  error.  The source indexes \<^verbatim>\<open>lines\<close> without a test of its length.  On the one-line
  document \<^verbatim>\<open>station,dev\<close> the first line is decoded, and reading \<^verbatim>\<open>lines[1]\<close> panics with
  an index out of range: no error value is returned.
\<close>

theorem ReadCFG_one_line_panics:
  "ReadCFG lib cfg (Inr ''station,dev'') =
     (cfg\<lparr>StationName := ''station'', RecordDeviceId := ''dev''\<rparr>,
      Some (Panicked IndexOutOfRange))"
  by (simp add: ReadCFG_def decodeLines_def mandatorySections_def andThen_def readFirstLine_def
      readSecondLine_def onLine_def firstLine_def lineAt_def trim_simps)

subsection \<open>C5: channel names\<close>

text \<open>
  Claim C5 says that a channel name is trimmed first and its inner spaces replaced
  afterwards, so that \<^verbatim>\<open>" Line A "\<close> is stored as \<^verbatim>\<open>"Line_A"\<close>.  The source replaces every
  space first (source lines 554 and 620) and trims the result, so the padding of
  \<^verbatim>\<open>" Line A "\<close> becomes underscores; only the unpadded \<^verbatim>\<open>"Line A"\<close> is stored as
  \<^verbatim>\<open>"Line_A"\<close>.
\<close>

theorem channelName_padding_becomes_underscores:
  "channelName lib '' Line A '' = ''_Line_A_'' \<and> channelName lib ''Line A'' = ''Line_A''"
  by (simp add: channelName_def trim_simps)

subsection \<open>Steps, loops and what they keep\<close>

lemma keepsD: "keeps p f \<Longrightarrow> p (fst (f s)) = p s"
  by (simp add: keeps_def)

lemma keepsI: "(\<And>s. p (fst (f s)) = p s) \<Longrightarrow> keeps p f"
  by (simp add: keeps_def)

lemma keeps_andThen: "keeps p f \<Longrightarrow> keeps p g \<Longrightarrow> keeps p (andThen f g)"
  by (auto simp: keeps_def andThen_def split: prod.splits option.splits) (metis fst_conv)+

lemma keeps_tryParse: "(\<And>v s. p (upd v s) = p s) \<Longrightarrow> keeps p (tryParse r upd)"
  by (auto simp: keeps_def tryParse_def split: sum.splits)

lemma keeps_assign: "(\<And>s. p (upd s) = p s) \<Longrightarrow> keeps p (assign upd)"
  by (simp add: keeps_def assign_def)

lemma keeps_onLine: "(\<And>l. keeps p (body l)) \<Longrightarrow> keeps p (onLine lines idx body)"
  by (auto simp: keeps_def onLine_def split: option.splits)

lemma keeps_forLoop:
  assumes "\<And>i. keeps p (body i)"
  shows "keeps p (forLoop body i k)"
proof -
  have "p (fst (forLoop body i k s)) = p s" for s
  proof (induction k arbitrary: i s)
    case 0
    show ?case by simp
  next
    case (Suc k)
    obtain s' r where b: "body i s = (s', r)" by (cases "body i s")
    have ps': "p s' = p s" using keepsD [OF assms, of i s] b by simp
    show ?case
    proof (cases r)
      case None
      then show ?thesis using b Suc.IH [of "Suc i" s'] ps' by simp
    next
      case (Some e)
      then show ?thesis using b ps' by simp
    qed
  qed
  then show ?thesis by (rule keepsI)
qed

lemma andThen_None:
  "andThen f g s = (s', None) \<longleftrightarrow> (\<exists>s1. f s = (s1, None) \<and> g s1 = (s', None))"
  by (auto simp: andThen_def split: prod.splits option.splits)


lemma forLoop_invariant:
  assumes "forLoop body i k s = (s', None)" and "P i s"
    and "\<And>j t t'. P j t \<Longrightarrow> body j t = (t', None) \<Longrightarrow> P (Suc j) t'"
  shows "P (i + k) s'"
  using assms(1,2)
proof (induction k arbitrary: i s)
  case 0
  then show ?case by simp
next
  case (Suc k)
  obtain t r where b: "body i s = (t, r)" by (cases "body i s")
  with Suc.prems(1) have r: "r = None" and rest: "forLoop body (Suc i) k t = (s', None)"
    by (auto split: option.splits)
  have "P (Suc i) t" using assms(3) [OF Suc.prems(2)] b r by simp
  from Suc.IH [OF rest this] show ?case by simp
qed

subsection \<open>Evaluation of the decoder on a concrete document\<close>

lemmas eval_simps =
  ReadCFG_def decodeLines_def mandatorySections_def andThen_def tryParse_def assign_def
  onLine_def firstLine_def readFirstLine_def secondLine_def readSecondLine_def
  analogLine_def analogRow_def analogMandatory_def analogOptional_def
  optPrimary_def optSecondary_def optIsSecondary_def readAnalogChannels_def
  digitLine_def digitRow_def digitFields_def readDigitChannels_def
  lineFrequency_def readLineFrequency_def sampleRateNum_def readSampleRateNum_def
  sampleLine_def sampleRow_def readSampleRates_def startTime_def readStartTime_def
  triggerTime_def readTriggerTime_def dataFileType_def readDataFileType_def
  timeFactor_def readTimeFactor_def timeCode_def readTimeCode_def
  lineAt_def afterChannels_def afterRates_def A_GetChannelTotal_def D_GetChannelTotal_def
  updA_def updD_def parseFloat64_def decimal_lib_def decimal_ParseFloat_def
  decimal_unsigned_def isDigit_def digitVal_def ParseUint_def Atoi_def Contains_def
  TrimSuffix_def trim_simps channelName_def parseTimestamp_def TimeFormat_def
  parseTimeFormat_def parseYear_def parseFraction_def daysIn_def isLeap_def NewCFG_def
  ChannelA_zero_def ChannelD_zero_def factorOf_def Let_def ToLower_def lowerByte_def
  One_nat_def example_doc_def stamp2_def stamp6_def decoded_def decode_failure_def

subsection \<open>C9: the optional line after the time factor\<close>

text \<open>
  Claim C9 says that \<^verbatim>\<open>ReadCFG\<close> never fails because of the optional line: an absent
  line leaves the time code and the local code empty.  The guard of the source is
  \<^verbatim>\<open>len(lines) >= int(optionalLineNum)\<close> where it had to be \<^verbatim>\<open>>\<close>: when the document ends
  with the line of the time factor, without a newline after it, the number of lines is
  exactly \<open>optionalLineNum\<close>, the guard holds, and \<^verbatim>\<open>lines[optionalLineNum]\<close> panics after
  all mandatory sections were decoded.
\<close>

theorem optional_line_absent_panics:
  "snd (mandatorySections lib lines cfg) = None \<Longrightarrow>
   length lines = afterRates 8 (fst (mandatorySections lib lines cfg)) \<Longrightarrow>
   snd (decodeLines lib lines cfg) = Some (Panicked IndexOutOfRange)"
  by (cases "mandatorySections lib lines cfg")
     (simp add: decodeLines_def andThen_def readTimeCode_def onLine_def lineAt_def)

theorem optional_line_absent_panics_witness:
  "snd (mandatorySections decimal_lib
          (Split CHR ''\<newline>'' (example_doc ''1'' ''1'' ''1'' stamp2 [])) (NewCFG decimal_lib)) = None
   \<and> decode_failure (example_doc ''1'' ''1'' ''1'' stamp2 []) = Some (Panicked IndexOutOfRange)
   \<and> decode_failure (example_doc ''1'' ''1'' ''1'' stamp2 ''\<newline>'') = None"
proof -
  let ?lines = "Split CHR ''\<newline>'' (example_doc ''1'' ''1'' ''1'' stamp2 [])"
  have m: "snd (mandatorySections decimal_lib ?lines (NewCFG decimal_lib)) = None"
    by (simp add: eval_simps)
  have n: "length ?lines = afterRates 8 (fst (mandatorySections decimal_lib ?lines (NewCFG decimal_lib)))"
    by (simp add: eval_simps)
  have "decode_failure (example_doc ''1'' ''1'' ''1'' stamp2 []) = Some (Panicked IndexOutOfRange)"
    using optional_line_absent_panics [OF m n] by (simp add: decode_failure_def ReadCFG_def)
  moreover have "decode_failure (example_doc ''1'' ''1'' ''1'' stamp2 ''\<newline>'') = None"
    by (simp add: eval_simps)
  ultimately show ?thesis using m by simp
qed


subsection \<open>C10: optional fields that do not parse\<close>














subsection \<open>What the sections of the decoder leave unchanged\<close>

lemma andThen_assoc: "andThen (andThen f g) h = andThen f (andThen g h)"
  by (rule ext) (auto simp: andThen_def split: prod.splits option.splits)

lemma onLine_None:
  "onLine lines idx body s = (s', None) \<longleftrightarrow>
     idx s < length lines \<and> body (lines ! idx s) s = (s', None)"
  by (auto simp: onLine_def lineAt_def)

lemma keeps_pair: "keeps p f \<Longrightarrow> keeps q f \<Longrightarrow> keeps (\<lambda>c. (p c, q c)) f"
  by (simp add: keeps_def)

lemma A_total_updA:
  "(\<And>a. A_ChannelTotal (f a) = A_ChannelTotal a) \<Longrightarrow>
   A_GetChannelTotal (AnalogDetail (updA f c)) = A_GetChannelTotal (AnalogDetail c)"
  by (cases "AnalogDetail c") (simp_all add: updA_def A_GetChannelTotal_def)

lemma D_total_updD:
  "(\<And>a. D_ChannelTotal (f a) = D_ChannelTotal a) \<Longrightarrow>
   D_GetChannelTotal (DigitDetail (updD f c)) = D_GetChannelTotal (DigitDetail c)"
  by (cases "DigitDetail c") (simp_all add: updD_def D_GetChannelTotal_def)

lemma keeps_analogLine:
  assumes "\<And>f c. (\<And>a. A_ChannelTotal (f a) = A_ChannelTotal a) \<Longrightarrow> p (updA f c) = p c"
  shows "keeps p (analogLine lib i l)"
proof (rule keepsI)
  fix s
  have m: "keeps p (analogMandatory lib fs)" for fs
    unfolding analogMandatory_def
    by (intro keeps_andThen keeps_tryParse keeps_assign assms) simp_all
  have o: "keeps p (analogOptional lib fs)" for fs
    unfolding analogOptional_def
    by (intro keeps_andThen keeps_assign)
       (simp_all add: optPrimary_def optSecondary_def optIsSecondary_def assms split: sum.splits)
  show "p (fst (analogLine lib i l s)) = p s"
    using keepsD [OF keeps_andThen [OF m o]] by (simp add: analogLine_def Let_def)
qed

lemma keeps_digitLine:
  assumes "\<And>f c. (\<And>a. D_ChannelTotal (f a) = D_ChannelTotal a) \<Longrightarrow> p (updD f c) = p c"
  shows "keeps p (digitLine lib i l)"
proof (rule keepsI)
  fix s
  have m: "keeps p (digitFields lib fs)" for fs
    unfolding digitFields_def
    by (intro keeps_andThen keeps_tryParse keeps_assign assms)
       (simp_all add: keeps_tryParse keeps_assign assms)
  show "p (fst (digitLine lib i l s)) = p s"
    using keepsD [OF m] by (simp add: digitLine_def Let_def)
qed

text \<open>
  The declared counts: the total, the analog total and the digital total.  They are
  assigned by the second line only.
\<close>

lemma keeps_counts_analog:
  "keeps (\<lambda>c. (ChannelNumber c, A_GetChannelTotal (AnalogDetail c),
               D_GetChannelTotal (DigitDetail c))) (readAnalogChannels lib lines)"
proof (rule keepsI)
  fix s
  let ?p = "\<lambda>c. (ChannelNumber c, A_GetChannelTotal (AnalogDetail c),
               D_GetChannelTotal (DigitDetail c))"
  have "keeps ?p (analogRow lib lines i)" for i
    unfolding analogRow_def
    by (intro keeps_onLine keeps_analogLine) (simp add: A_total_updA, simp add: updA_def)
  then have "keeps ?p (forLoop (analogRow lib lines) 0 k)" for k
    by (rule keeps_forLoop)
  then show "?p (fst (readAnalogChannels lib lines s)) = ?p s"
    unfolding readAnalogChannels_def by (rule keepsD)
qed

lemma keeps_counts_digit:
  "keeps (\<lambda>c. (ChannelNumber c, A_GetChannelTotal (AnalogDetail c),
               D_GetChannelTotal (DigitDetail c))) (readDigitChannels lib lines)"
proof (rule keepsI)
  fix s
  let ?p = "\<lambda>c. (ChannelNumber c, A_GetChannelTotal (AnalogDetail c),
               D_GetChannelTotal (DigitDetail c))"
  have "keeps ?p (digitRow lib lines i)" for i
    unfolding digitRow_def
    by (intro keeps_onLine keeps_digitLine) (simp add: D_total_updD, simp add: updD_def)
  then have "keeps ?p (forLoop (digitRow lib lines) 0 k)" for k
    by (rule keeps_forLoop)
  then show "?p (fst (readDigitChannels lib lines s)) = ?p s"
    unfolding readDigitChannels_def by (rule keepsD)
qed

text \<open>
  From the line frequency on, no section assigns the total or a channel table.
\<close>

lemma keeps_tables_lines:
  fixes p :: "('f, 't) CFG \<Rightarrow> 'a"
  assumes "\<And>c c'. ChannelNumber c' = ChannelNumber c \<Longrightarrow> AnalogDetail c' = AnalogDetail c \<Longrightarrow>
             DigitDetail c' = DigitDetail c \<Longrightarrow> p c' = p c"
  shows "keeps p (lineFrequency lib l)" "keeps p (sampleRateNum lib l)"
    "keeps p (sampleLine lib l)" "keeps p (startTime lib l)" "keeps p (triggerTime lib l)"
    "keeps p (dataFileType lib l)" "keeps p (timeFactor lib l)" "keeps p (timeCode lib l)"
  by (auto simp: keeps_def lineFrequency_def sampleRateNum_def sampleLine_def startTime_def
      triggerTime_def dataFileType_def timeFactor_def timeCode_def tryParse_def assign_def
      Let_def intro!: assms split: sum.splits)

lemma keeps_tables_tail:
  fixes p :: "('f, 't) CFG \<Rightarrow> 'a"
  assumes "\<And>c c'. ChannelNumber c' = ChannelNumber c \<Longrightarrow> AnalogDetail c' = AnalogDetail c \<Longrightarrow>
             DigitDetail c' = DigitDetail c \<Longrightarrow> p c' = p c"
  shows "keeps p (readLineFrequency lib lines)" "keeps p (readSampleRateNum lib lines)"
    "keeps p (readSampleRates lib lines)" "keeps p (readStartTime lib lines)"
    "keeps p (readTriggerTime lib lines)" "keeps p (readDataFileType lib lines)"
    "keeps p (readTimeFactor lib lines)" "keeps p (readTimeCode lib lines)"
proof -
  note k = keeps_tables_lines [of p, OF assms]
  show "keeps p (readLineFrequency lib lines)" "keeps p (readSampleRateNum lib lines)"
    "keeps p (readStartTime lib lines)"
    "keeps p (readTriggerTime lib lines)" "keeps p (readDataFileType lib lines)"
    "keeps p (readTimeFactor lib lines)"
    unfolding readLineFrequency_def readSampleRateNum_def readStartTime_def
      readTriggerTime_def readDataFileType_def readTimeFactor_def
    by (simp_all add: keeps_onLine k)
  have "keeps p (sampleRow lib lines i)" for i
    unfolding sampleRow_def by (intro keeps_onLine k)
  then have "keeps p (forLoop (sampleRow lib lines) 0 n)" for n
    by (rule keeps_forLoop)
  then show "keeps p (readSampleRates lib lines)"
    by (simp add: keeps_def readSampleRates_def)
  have "keeps p (onLine lines (afterRates 8) (timeCode lib))"
    by (intro keeps_onLine k)
  then show "keeps p (readTimeCode lib lines)"
    by (simp add: keeps_def readTimeCode_def)
qed

lemma decodeLines_chain:
  "decodeLines lib lines =
     andThen (readFirstLine lib lines)
    (andThen (readSecondLine lib lines)
    (andThen (readAnalogChannels lib lines)
    (andThen (readDigitChannels lib lines)
    (andThen (readLineFrequency lib lines)
    (andThen (readSampleRateNum lib lines)
    (andThen (readSampleRates lib lines)
    (andThen (readStartTime lib lines)
    (andThen (readTriggerTime lib lines)
    (andThen (readDataFileType lib lines)
    (andThen (readTimeFactor lib lines)
             (readTimeCode lib lines)))))))))))"
  by (simp add: decodeLines_def mandatorySections_def andThen_assoc)

lemma keeps_counts_rest:
  "keeps (\<lambda>c. (ChannelNumber c, A_GetChannelTotal (AnalogDetail c),
               D_GetChannelTotal (DigitDetail c)))
    (andThen (readAnalogChannels lib lines)
    (andThen (readDigitChannels lib lines)
    (andThen (readLineFrequency lib lines)
    (andThen (readSampleRateNum lib lines)
    (andThen (readSampleRates lib lines)
    (andThen (readStartTime lib lines)
    (andThen (readTriggerTime lib lines)
    (andThen (readDataFileType lib lines)
    (andThen (readTimeFactor lib lines)
             (readTimeCode lib lines))))))))))"
  by (intro keeps_andThen keeps_counts_analog keeps_counts_digit keeps_tables_tail) simp_all

subsection \<open>C7: the declared total and the two channel totals\<close>

lemma digitLoop_bound: "digitLoop mx s acc = Inr n \<Longrightarrow> acc \<le> mx \<Longrightarrow> n \<le> mx"
  by (induction s arbitrary: acc) (auto split: if_splits)

lemma ParseUint_bound: "ParseUint s b = Inr n \<Longrightarrow> n \<le> 2 ^ b - 1"
  using digitLoop_bound [of "2 ^ b - 1" s 0 n]
  by (auto simp: ParseUint_def split: if_splits sum.splits)

lemma ParseUint16_unat: "ParseUint s 16 = Inr n \<Longrightarrow> unat (of_nat n :: 16 word) = n"
  using ParseUint_bound [of s 16 n] by (simp add: unat_of_nat)

lemma secondLine_success:
  assumes "secondLine lib l cfg = (c, None)"
  shows "ParseUint (ByteToString lib (Split CHR '','' l ! 0)) 16 = Inr (unat (ChannelNumber c))
    \<and> ParseUint (TrimSuffix (TrimSpace lib (Split CHR '','' l ! 1)) CHR ''A'') 16
        = Inr (unat (A_GetChannelTotal (AnalogDetail c)))
    \<and> ParseUint (TrimSuffix (TrimSpace lib (Split CHR '','' l ! 2)) CHR ''D'') 16
        = Inr (unat (D_GetChannelTotal (DigitDetail c)))"
  using assms
  by (auto simp: secondLine_def Let_def updA_def updD_def A_GetChannelTotal_def
      D_GetChannelTotal_def ParseUint16_unat split: if_splits sum.splits)

text \<open>
  Claim C7 says that on success the stored total is the sum of the two stored channel
  totals.  \<^verbatim>\<open>ReadCFG\<close> stores the three numbers of the second line as they are written and
  never compares them.  What holds: on success the stored total is the number in the
  first field of the second line, and the analog and digital totals are the numbers in
  front of the tags \<^verbatim>\<open>A\<close> and \<^verbatim>\<open>D\<close> of its second and third fields; so the total is the
  sum of the other two exactly when the document declares it so.
\<close>

theorem declared_counts_are_stored:
  assumes "ReadCFG lib cfg0 (Inr content) = (cfg, None)"
    and "fs = Split CHR '','' (Split CHR ''\<newline>'' content ! 1)"
  shows "ParseUint (ByteToString lib (fs ! 0)) 16 = Inr (unat (ChannelNumber cfg))
    \<and> ParseUint (TrimSuffix (TrimSpace lib (fs ! 1)) CHR ''A'') 16
        = Inr (unat (A_GetChannelTotal (AnalogDetail cfg)))
    \<and> ParseUint (TrimSuffix (TrimSpace lib (fs ! 2)) CHR ''D'') 16
        = Inr (unat (D_GetChannelTotal (DigitDetail cfg)))"
proof -
  let ?lines = "Split CHR ''\<newline>'' content"
  from assms(1) have "decodeLines lib ?lines cfg0 = (cfg, None)"
    by (simp add: ReadCFG_def)
  then obtain s1 s2 where "readSecondLine lib ?lines s1 = (s2, None)"
    and rest: "andThen (readAnalogChannels lib ?lines)
      (andThen (readDigitChannels lib ?lines)
      (andThen (readLineFrequency lib ?lines)
      (andThen (readSampleRateNum lib ?lines)
      (andThen (readSampleRates lib ?lines)
      (andThen (readStartTime lib ?lines)
      (andThen (readTriggerTime lib ?lines)
      (andThen (readDataFileType lib ?lines)
      (andThen (readTimeFactor lib ?lines)
               (readTimeCode lib ?lines))))))))) s2 = (cfg, None)"
    unfolding decodeLines_chain andThen_None [of "readFirstLine lib ?lines"]
      andThen_None [of "readSecondLine lib ?lines"] by blast
  then have "secondLine lib (?lines ! 1) s1 = (s2, None)"
    by (simp add: readSecondLine_def onLine_None)
  from secondLine_success [OF this] have
    s2: "ParseUint (ByteToString lib (fs ! 0)) 16 = Inr (unat (ChannelNumber s2))
    \<and> ParseUint (TrimSuffix (TrimSpace lib (fs ! 1)) CHR ''A'') 16
        = Inr (unat (A_GetChannelTotal (AnalogDetail s2)))
    \<and> ParseUint (TrimSuffix (TrimSpace lib (fs ! 2)) CHR ''D'') 16
        = Inr (unat (D_GetChannelTotal (DigitDetail s2)))"
    by (simp add: assms(2))
  from keepsD [OF keeps_counts_rest, of lib ?lines s2] rest
  have "ChannelNumber cfg = ChannelNumber s2"
    "A_GetChannelTotal (AnalogDetail cfg) = A_GetChannelTotal (AnalogDetail s2)"
    "D_GetChannelTotal (DigitDetail cfg) = D_GetChannelTotal (DigitDetail s2)"
    by simp_all
  with s2 show ?thesis by simp
qed


lemma ReadCFG_decoded:
  "decode_failure doc = None \<Longrightarrow>
   ReadCFG decimal_lib (NewCFG decimal_lib) (Inr doc) = (decoded doc, None)"
  by (simp add: decode_failure_def decoded_def prod_eq_iff)

lemma example_decodes: "decode_failure (example_doc ''1'' ''1'' ''1'' stamp2 ''\<newline>'') = None"
  by (simp add: eval_simps)

text \<open>
  The example document with a declared total of 5, one analog and no digital channel is
  decoded without error, and the three numbers are stored as they are.
\<close>

theorem declared_total_unchecked_counterexample:
  "decode_failure (example_doc ''5'' ''1'' ''1'' stamp2 ''\<newline>'') = None
   \<and> ChannelNumber (decoded (example_doc ''5'' ''1'' ''1'' stamp2 ''\<newline>'')) = 5
   \<and> A_GetChannelTotal (AnalogDetail (decoded (example_doc ''5'' ''1'' ''1'' stamp2 ''\<newline>''))) = 1
   \<and> D_GetChannelTotal (DigitDetail (decoded (example_doc ''5'' ''1'' ''1'' stamp2 ''\<newline>''))) = 0
   \<and> unat (ChannelNumber (decoded (example_doc ''5'' ''1'' ''1'' stamp2 ''\<newline>''))) \<noteq>
       unat (A_GetChannelTotal (AnalogDetail (decoded (example_doc ''5'' ''1'' ''1'' stamp2 ''\<newline>''))))
       + unat (D_GetChannelTotal (DigitDetail (decoded (example_doc ''5'' ''1'' ''1'' stamp2 ''\<newline>''))))"
  by (simp add: eval_simps)

theorem declared_counts_are_stored_witness:
  "ReadCFG decimal_lib (NewCFG decimal_lib) (Inr (example_doc ''1'' ''1'' ''1'' stamp2 ''\<newline>''))
     = (decoded (example_doc ''1'' ''1'' ''1'' stamp2 ''\<newline>''), None)
   \<and> ParseUint (ByteToString decimal_lib (Split CHR '','' ''1,1A,0D'' ! 0)) 16
       = Inr (unat (ChannelNumber (decoded (example_doc ''1'' ''1'' ''1'' stamp2 ''\<newline>''))))
   \<and> ParseUint (TrimSuffix (TrimSpace decimal_lib (Split CHR '','' ''1,1A,0D'' ! 1)) CHR ''A'') 16
       = Inr (unat (A_GetChannelTotal (AnalogDetail
            (decoded (example_doc ''1'' ''1'' ''1'' stamp2 ''\<newline>'')))))
   \<and> ParseUint (TrimSuffix (TrimSpace decimal_lib (Split CHR '','' ''1,1A,0D'' ! 2)) CHR ''D'') 16
       = Inr (unat (D_GetChannelTotal (DigitDetail
            (decoded (example_doc ''1'' ''1'' ''1'' stamp2 ''\<newline>'')))))"
proof -
  let ?doc = "example_doc ''1'' ''1'' ''1'' stamp2 ''\<newline>''"
  have r: "ReadCFG decimal_lib (NewCFG decimal_lib) (Inr ?doc) = (decoded ?doc, None)"
    by (rule ReadCFG_decoded [OF example_decodes])
  have l: "''1,1A,0D'' = Split CHR ''\<newline>'' ?doc ! 1"
    by (simp add: example_doc_def stamp2_def)
  have "Split CHR '','' ''1,1A,0D'' = Split CHR '','' (Split CHR ''\<newline>'' ?doc ! 1)"
    by (subst l) (rule refl)
  from declared_counts_are_stored [OF r this] r show ?thesis by blast
qed

subsection \<open>C6: the timestamp lines\<close>











lemma example_timestamps:
  "StartTime (decoded (example_doc ''1'' ''1'' ''1'' stamp2 ''\<newline>''))
     = \<lparr>year = 2020, month = 2, day = 1, hour = 10, minute = 30, second = 15,
        nanosecond = 250000\<rparr>"
  by (simp add: eval_simps)


subsection \<open>C1: the calibrated samples of a channel\<close>

lemma le_int16_add: "le_int16 b0 b1 = ucast b0 + push_bit 8 (ucast b1)"
  unfolding le_int16_def
  by (rule disjunctive_add [symmetric]) (auto simp: bit_simps dest: bit_imp_le_length)

lemma uint_le_int16: "uint (le_int16 b0 b1) = uint b0 + 256 * uint b1"
proof -
  have a: "uint b0 < 256" "uint b1 < 256"
    using uint_bounded [of b0] uint_bounded [of b1] by simp_all
  have "uint (le_int16 b0 b1) = (uint b0 + 256 * uint b1) mod 65536"
    unfolding le_int16_add
    by (simp add: uint_word_ariths push_bit_eq_mult uint_up_ucast is_up take_bit_eq_mod)
       presburger
  moreover have "(uint b0 + 256 * uint b1) mod 65536 = uint b0 + 256 * uint b1"
    by (rule mod_pos_pos_trivial) (use a uint_ge_0 [of b0] uint_ge_0 [of b1] in linarith)+
  ultimately show ?thesis by (rule trans)
qed

lemma sint16: "sint (w :: 16 word) = (if uint w < 32768 then uint w else uint w - 65536)"
proof -
  have s: "sint w = (uint w + 32768) mod 65536 - 32768"
    by (simp add: sint_uint signed_take_bit_eq_take_bit_shift take_bit_eq_mod)
  have b: "0 \<le> uint w" "uint w < 65536"
    using uint_bounded [of w] by simp_all
  show ?thesis
  proof (cases "uint w < 32768")
    case True
    have "(uint w + 32768) mod 65536 = uint w + 32768"
      by (rule mod_pos_pos_trivial) (use True b in linarith)+
    with s True show ?thesis by (simp only: if_True; linarith)
  next
    case False
    have "(uint w + 32768) mod 65536 = ((uint w - 32768) + 65536) mod 65536"
      by (rule arg_cong [where f = "\<lambda>x. x mod 65536"]) linarith
    also have "\<dots> = (uint w - 32768) mod 65536"
      by (rule mod_add_self2)
    also have "\<dots> = uint w - 32768"
      by (rule mod_pos_pos_trivial) (use False b in linarith)+
    finally show ?thesis using s False by (simp only: if_False; linarith)
  qed
qed


lemma sint_le_int16:
  "sint (le_int16 b0 b1) =
     (let u = uint b0 + 256 * uint b1 in if u < 32768 then u else u - 65536)"
  by (simp add: sint16 uint_le_int16 Let_def)

lemma length_decode16: "length (decode16 bs) = length bs div 2"
  by (induction bs rule: decode16.induct) simp_all

lemma decode16_nth:
  "2 * j + 1 < length bs \<Longrightarrow> decode16 bs ! j = le_int16 (bs ! (2 * j)) (bs ! (2 * j + 1))"
proof (induction bs arbitrary: j rule: decode16.induct)
  case (1 b0 b1 bs)
  show ?case
  proof (cases j)
    case 0
    then show ?thesis by simp
  next
    case (Suc m)
    with "1.prems" have "2 * m + 1 < length bs" by simp
    from "1.IH" [OF this] Suc show ?thesis by simp
  qed
qed simp_all

text \<open>One record: the slice, the 16-bit values behind its first 8 bytes, the value of a channel.\<close>

lemma record_value:
  assumes "i * nb + nb \<le> length bytes" and "8 \<le> nb" and "j < (nb - 8) div 2"
  shows "sint (decode16 (take (2 * ((nb - 8) div 2)) (drop 8 (take nb (drop (i * nb) bytes)))) ! j)
    = rawSample bytes nb (Suc j) i"
proof -
  let ?s = "take nb (drop (i * nb) bytes)"
  let ?x = "take (2 * ((nb - 8) div 2)) (drop 8 ?s)"
  have ls: "length ?s = nb" using assms(1) by simp
  have lx: "length ?x = 2 * ((nb - 8) div 2)" using ls assms(2) by simp
  have j2: "2 * j + 1 < length ?x" using lx assms(3) by linarith
  have n: "?x ! m = bytes ! (i * nb + 8 + m)" if "m < 2 * ((nb - 8) div 2)" for m
  proof -
    have "8 + m < nb" using that assms(2) by linarith
    then show ?thesis using that assms(1) by (simp add: add.assoc)
  qed
  have "decode16 ?x ! j = le_int16 (?x ! (2 * j)) (?x ! (2 * j + 1))"
    by (rule decode16_nth [OF j2])
  also have "\<dots> = le_int16 (bytes ! (i * nb + 8 + 2 * j)) (bytes ! (i * nb + 8 + (2 * j + 1)))"
  proof -
    have a1: "2 * j < 2 * ((nb - 8) div 2)" and a2: "2 * j + 1 < 2 * ((nb - 8) div 2)"
      using assms(3) by linarith+
    show ?thesis by (simp only: n [OF a1] n [OF a2])
  qed
  finally show ?thesis
    by (simp add: sint_le_int16 rawSample_def Let_def)
qed

lemma sampleLoop_ok:
  assumes "(i + k) * nb \<le> length (backing buf)" and "8 \<le> nb" and "j = unat (num - 1)"
    and "j < (nb - 8) div 2" and "j < length (factorOf a ''a'')" and "j < length (factorOf a ''b'')"
  shows "sampleLoop lib buf nb a num i k res =
    Inr (res @ map (\<lambda>r. f_mul_add lib (f_of_int lib (rawSample (backing buf) nb (Suc j) r))
                        (factorOf a ''a'' ! j) (factorOf a ''b'' ! j)) [i..<i + k])"
  using assms(1)
proof (induction k arbitrary: i res)
  case 0
  then show ?case by simp
next
  case (Suc k)
  define s where "s = take nb (drop (i * nb) (backing buf))"
  define val where "val = decode16 (take (2 * ((nb - 8) div 2)) (drop 8 s))"
  have le: "i * nb + nb \<le> length (backing buf)"
  proof -
    have "i * nb + nb \<le> (i + Suc k) * nb" by (simp add: algebra_simps)
    with Suc.prems show ?thesis by linarith
  qed
  have sl: "sliceOf buf (i * nb) (i * nb + nb) = Some s"
    using le by (simp add: sliceOf_def s_def)
  have rd: "readInt16s (drop 8 s) ((nb - 8) div 2) = Inr val"
    using le assms(2) by (simp add: readInt16s_def s_def val_def)
  have lv: "length val = (nb - 8) div 2"
    using le assms(2) by (simp add: length_decode16 s_def val_def)
  have rv: "sint (val ! j) = rawSample (backing buf) nb (Suc j) i"
    unfolding val_def s_def by (rule record_value [OF le assms(2,4)])
  have c: "\<not> (length val \<le> j \<or> length (factorOf a ''a'') \<le> j \<or> length (factorOf a ''b'') \<le> j)"
    using lv assms(4-6) by simp
  have nx: "(Suc i + k) * nb \<le> length (backing buf)" using Suc.prems by simp
  have up: "[i..<i + Suc k] = i # [Suc i..<Suc i + k]"
    by (simp add: upt_conv_Cons)
  have "sampleLoop lib buf nb a num i (Suc k) res =
      sampleLoop lib buf nb a num (Suc i) k
        (res @ [f_mul_add lib (f_of_int lib (sint (val ! j))) (factorOf a ''a'' ! j)
                  (factorOf a ''b'' ! j)])"
    using c by (simp add: sl rd Let_def assms(3) [symmetric])
  also note Suc.IH [OF nx]
  finally show ?case by (simp only: up rv list.map append_Cons append_Nil append_assoc)
qed


lemma tryParse_None: "tryParse r upd s = (s', None) \<longleftrightarrow> (\<exists>v. r = Inr v \<and> s' = upd v s)"
  by (cases r) (auto simp: tryParse_def)

lemma assign_None: "assign upd s = (s', None) \<longleftrightarrow> s' = upd s"
  by (auto simp: assign_def)

lemma secondLine_tables:
  "secondLine lib l c = (c', None) \<Longrightarrow>
   \<exists>a d. AnalogDetail c' = Some a \<and> DigitDetail c' = Some d
     \<and> factorOf a ''a'' = [] \<and> factorOf a ''b'' = []"
  by (auto simp: secondLine_def Let_def updA_def updD_def factorOf_def ChannelA_zero_def
      split: if_splits sum.splits)

lemma analogLine_appends:
  assumes "analogLine lib i l t = (t', None)" and "AnalogDetail t = Some a"
  shows "\<exists>a'. AnalogDetail t' = Some a' \<and> A_ChannelTotal a' = A_ChannelTotal a
    \<and> length (factorOf a' ''a'') = Suc (length (factorOf a ''a''))
    \<and> length (factorOf a' ''b'') = Suc (length (factorOf a ''b''))"
proof -
  let ?fs = "Split CHR '','' l"
  from assms(1) obtain u where m: "analogMandatory lib ?fs t = (u, None)"
    and o: "t' = optIsSecondary lib ?fs (optSecondary lib ?fs (optPrimary lib ?fs u))"
    by (auto simp: analogLine_def Let_def andThen_None analogOptional_def assign_None
        split: if_splits)
  from m assms(2) have "\<exists>b. AnalogDetail u = Some b \<and> A_ChannelTotal b = A_ChannelTotal a
    \<and> length (factorOf b ''a'') = Suc (length (factorOf a ''a''))
    \<and> length (factorOf b ''b'') = Suc (length (factorOf a ''b''))"
    unfolding analogMandatory_def andThen_None tryParse_None assign_None
    by (auto simp: updA_def factorOf_def)
  then obtain b where b: "AnalogDetail u = Some b" "A_ChannelTotal b = A_ChannelTotal a"
    "length (factorOf b ''a'') = Suc (length (factorOf a ''a''))"
    "length (factorOf b ''b'') = Suc (length (factorOf a ''b''))"
    by blast
  show ?thesis
    unfolding o using b
    by (auto simp: optPrimary_def optSecondary_def optIsSecondary_def updA_def factorOf_def
        split: sum.splits)
qed

lemma analog_loop_lengths:
  assumes "forLoop (analogRow lib lines) 0 k s = (s', None)" and "AnalogDetail s = Some a"
    and "factorOf a ''a'' = []" and "factorOf a ''b'' = []"
  shows "\<exists>a'. AnalogDetail s' = Some a' \<and> A_ChannelTotal a' = A_ChannelTotal a
    \<and> length (factorOf a' ''a'') = k \<and> length (factorOf a' ''b'') = k"
proof -
  let ?P = "\<lambda>j t. \<exists>b. AnalogDetail t = Some b \<and> A_ChannelTotal b = A_ChannelTotal a
    \<and> length (factorOf b ''a'') = j \<and> length (factorOf b ''b'') = j"
  have "?P (0 + k) s'"
  proof (rule forLoop_invariant [OF assms(1), where P = ?P])
    show "?P 0 s" using assms(2-4) by simp
  next
    fix j t t'
    assume p: "?P j t" and r: "analogRow lib lines j t = (t', None)"
    from p obtain b where b: "AnalogDetail t = Some b" "A_ChannelTotal b = A_ChannelTotal a"
      "length (factorOf b ''a'') = j" "length (factorOf b ''b'') = j" by blast
    from r have "analogLine lib j (lines ! (2 + j)) t = (t', None)"
      by (simp add: analogRow_def onLine_None)
    from analogLine_appends [OF this b(1)] b(2-4) show "?P (Suc j) t'" by auto
  qed
  then show ?thesis by simp
qed

lemma sampleLine_appends: "sampleLine lib l t = (t', None) \<Longrightarrow> SampleDetail t' \<noteq> []"
  by (auto simp: sampleLine_def Let_def split: sum.splits if_splits)

lemma sampleRateNum_nonzero: "sampleRateNum lib l c = (c', None) \<Longrightarrow> SampleRateNum c' \<noteq> 0"
  by (auto simp: sampleRateNum_def Let_def tryParse_None split: if_splits)

lemma sample_loop_nonempty:
  assumes "forLoop (sampleRow lib lines) 0 k s = (s', None)" and "0 < k"
  shows "SampleDetail s' \<noteq> []"
proof -
  let ?Q = "\<lambda>(j::nat) t. 0 < j \<longrightarrow> SampleDetail t \<noteq> []"
  have "?Q (0 + k) s'"
  proof (rule forLoop_invariant [OF assms(1), where P = ?Q])
    show "?Q 0 s" by simp
  next
    fix j t t'
    assume "sampleRow lib lines j t = (t', None)"
    then have "\<exists>l. sampleLine lib l t = (t', None)"
      by (auto simp: sampleRow_def onLine_None)
    then show "?Q (Suc j) t'" using sampleLine_appends by blast
  qed
  with assms(2) show ?thesis by simp
qed

lemma keeps_rates_tail:
  fixes p :: "('f, 't) CFG \<Rightarrow> 'a"
  assumes "\<And>c c'. ChannelNumber c' = ChannelNumber c \<Longrightarrow> AnalogDetail c' = AnalogDetail c \<Longrightarrow>
             DigitDetail c' = DigitDetail c \<Longrightarrow> SampleRateNum c' = SampleRateNum c \<Longrightarrow>
             SampleDetail c' = SampleDetail c \<Longrightarrow> p c' = p c"
  shows "keeps p (andThen (readStartTime lib lines)
    (andThen (readTriggerTime lib lines)
    (andThen (readDataFileType lib lines)
    (andThen (readTimeFactor lib lines)
             (readTimeCode lib lines)))))"
proof -
  have k: "keeps p (startTime lib l)" "keeps p (triggerTime lib l)"
    "keeps p (dataFileType lib l)" "keeps p (timeFactor lib l)" "keeps p (timeCode lib l)" for l
    by (auto simp: keeps_def startTime_def triggerTime_def dataFileType_def timeFactor_def
        timeCode_def tryParse_def assign_def Let_def intro!: assms split: sum.splits)
  have "keeps p (onLine lines (afterRates 8) (timeCode lib))"
    by (intro keeps_onLine k)
  then have t: "keeps p (readTimeCode lib lines)"
    by (simp add: keeps_def readTimeCode_def)
  show ?thesis
    unfolding readStartTime_def readTriggerTime_def readDataFileType_def readTimeFactor_def
    by (intro keeps_andThen keeps_onLine k t)
qed

lemma keeps_after_analog:
  fixes p :: "('f, 't) CFG \<Rightarrow> 'a"
  assumes "\<And>c c'. ChannelNumber c' = ChannelNumber c \<Longrightarrow> AnalogDetail c' = AnalogDetail c \<Longrightarrow>
             DigitDetail c' = DigitDetail c \<Longrightarrow> p c' = p c"
    and "\<And>f c. p (updD f c) = p c"
  shows "keeps p
    (andThen (readDigitChannels lib lines)
    (andThen (readLineFrequency lib lines)
    (andThen (readSampleRateNum lib lines)
    (andThen (readSampleRates lib lines)
    (andThen (readStartTime lib lines)
    (andThen (readTriggerTime lib lines)
    (andThen (readDataFileType lib lines)
    (andThen (readTimeFactor lib lines)
             (readTimeCode lib lines)))))))))"
proof -
  have "keeps p (digitRow lib lines i)" for i
    unfolding digitRow_def by (intro keeps_onLine keeps_digitLine assms(2))
  then have "keeps p (forLoop (digitRow lib lines) 0 k)" for k
    by (rule keeps_forLoop)
  then have d: "keeps p (readDigitChannels lib lines)"
    by (simp add: keeps_def readDigitChannels_def)
  show ?thesis
    by (intro keeps_andThen d keeps_tables_tail assms(1))
qed

lemma decodeLines_tables:
  assumes "decodeLines lib lines cfg0 = (cfg, None)"
  shows "\<exists>a d. AnalogDetail cfg = Some a \<and> DigitDetail cfg = Some d
    \<and> length (factorOf a ''a'') = unat (A_ChannelTotal a)
    \<and> length (factorOf a ''b'') = unat (A_ChannelTotal a)"
proof -
  from assms obtain s1 s2 s3 where s2: "readSecondLine lib lines s1 = (s2, None)"
    and s3: "readAnalogChannels lib lines s2 = (s3, None)"
    and rest: "andThen (readDigitChannels lib lines)
      (andThen (readLineFrequency lib lines)
      (andThen (readSampleRateNum lib lines)
      (andThen (readSampleRates lib lines)
      (andThen (readStartTime lib lines)
      (andThen (readTriggerTime lib lines)
      (andThen (readDataFileType lib lines)
      (andThen (readTimeFactor lib lines)
               (readTimeCode lib lines)))))))) s3 = (cfg, None)"
    unfolding decodeLines_chain andThen_None [of "readFirstLine lib lines"]
      andThen_None [of "readSecondLine lib lines"]
      andThen_None [of "readAnalogChannels lib lines"] by blast
  from s2 have "secondLine lib (lines ! 1) s1 = (s2, None)"
    by (simp add: readSecondLine_def onLine_None)
  from secondLine_tables [OF this] obtain a2 d2 where
    t2: "AnalogDetail s2 = Some a2" "DigitDetail s2 = Some d2"
      "factorOf a2 ''a'' = []" "factorOf a2 ''b'' = []" by blast
  from s3 have loop: "forLoop (analogRow lib lines) 0 (unat (A_ChannelTotal a2)) s2 = (s3, None)"
    by (simp add: readAnalogChannels_def t2(1) A_GetChannelTotal_def)
  from analog_loop_lengths [OF loop t2(1,3,4)] obtain a3 where
    a3: "AnalogDetail s3 = Some a3" "A_ChannelTotal a3 = A_ChannelTotal a2"
      "length (factorOf a3 ''a'') = unat (A_ChannelTotal a2)"
      "length (factorOf a3 ''b'') = unat (A_ChannelTotal a2)" by blast
  have "keeps DigitDetail (analogRow lib lines i)" for i
    unfolding analogRow_def by (intro keeps_onLine keeps_analogLine) (simp add: updA_def)
  then have "keeps DigitDetail (forLoop (analogRow lib lines) 0 k)" for k
    by (rule keeps_forLoop)
  from keepsD [OF this, of "unat (A_ChannelTotal a2)" s2] loop
  have d3: "DigitDetail s3 = Some d2" by (simp add: t2(2))
  have "keeps AnalogDetail
    (andThen (readDigitChannels lib lines)
    (andThen (readLineFrequency lib lines)
    (andThen (readSampleRateNum lib lines)
    (andThen (readSampleRates lib lines)
    (andThen (readStartTime lib lines)
    (andThen (readTriggerTime lib lines)
    (andThen (readDataFileType lib lines)
    (andThen (readTimeFactor lib lines)
             (readTimeCode lib lines)))))))))"
    by (rule keeps_after_analog) (simp_all add: updD_def)
  from keepsD [OF this, of s3] rest have A: "AnalogDetail cfg = Some a3"
    by (simp add: a3(1))
  have "keeps (\<lambda>c. DigitDetail c = None)
    (andThen (readDigitChannels lib lines)
    (andThen (readLineFrequency lib lines)
    (andThen (readSampleRateNum lib lines)
    (andThen (readSampleRates lib lines)
    (andThen (readStartTime lib lines)
    (andThen (readTriggerTime lib lines)
    (andThen (readDataFileType lib lines)
    (andThen (readTimeFactor lib lines)
             (readTimeCode lib lines)))))))))"
    by (rule keeps_after_analog) (simp_all add: updD_def)
  from keepsD [OF this, of s3] rest have "DigitDetail cfg \<noteq> None"
    by (simp add: d3)
  with A a3 show ?thesis by auto
qed

lemma decodeLines_sample_detail:
  assumes "decodeLines lib lines cfg0 = (cfg, None)"
  shows "SampleDetail cfg \<noteq> []"
proof -
  from assms obtain s5 s6 s7 where s6: "readSampleRateNum lib lines s5 = (s6, None)"
    and s7: "readSampleRates lib lines s6 = (s7, None)"
    and rest: "andThen (readStartTime lib lines)
      (andThen (readTriggerTime lib lines)
      (andThen (readDataFileType lib lines)
      (andThen (readTimeFactor lib lines)
               (readTimeCode lib lines)))) s7 = (cfg, None)"
    unfolding decodeLines_chain andThen_None [of "readFirstLine lib lines"]
      andThen_None [of "readSecondLine lib lines"]
      andThen_None [of "readAnalogChannels lib lines"]
      andThen_None [of "readDigitChannels lib lines"]
      andThen_None [of "readLineFrequency lib lines"]
      andThen_None [of "readSampleRateNum lib lines"]
      andThen_None [of "readSampleRates lib lines"] by blast
  from s6 have "SampleRateNum s6 \<noteq> 0"
    by (auto simp: readSampleRateNum_def onLine_None dest: sampleRateNum_nonzero)
  then have "0 < unat (SampleRateNum s6)"
    by (simp add: unat_gt_0)
  with s7 have "SampleDetail s7 \<noteq> []"
    unfolding readSampleRates_def by (rule sample_loop_nonempty)
  moreover have "keeps SampleDetail
     (andThen (readStartTime lib lines)
      (andThen (readTriggerTime lib lines)
      (andThen (readDataFileType lib lines)
      (andThen (readTimeFactor lib lines)
               (readTimeCode lib lines)))))"
    by (rule keeps_rates_tail) simp
  from keepsD [OF this, of s7] rest have "SampleDetail cfg = SampleDetail s7" by simp
  ultimately show ?thesis by simp
qed


end
